theory Spec2Isabelle
  imports Main "HOL-Library.Word" "HOL-Library.Sublist"
begin

section \<open>JavaScript strings\<close>

text \<open>
  A JavaScript string is a sequence of UTF-16 code units; \<open>===\<close>, \<open>startsWith\<close>,
  \<open>slice\<close>, \<open>split\<close>, \<open>trim\<close> and \<open>length\<close> all work on code units.
  \<open>lit\<close> writes a literal whose characters are below U+0100 (one code unit each).
\<close>

type_synonym jsstring = "16 word list"

definition lit :: "string \<Rightarrow> jsstring" where
  "lit s = map of_char s"

definition LF :: "16 word" where
  "LF = 0x0A"

text \<open>
  \<open>String.prototype.trim\<close> removes WhiteSpace and LineTerminator code points from both
  ends (ECMAScript: TAB, VT, FF, SP, NBSP, ZWNBSP, the Zs category; LF, CR, LS, PS).
  All of them are single code units.
\<close>

definition isWhiteSpace :: "16 word \<Rightarrow> bool" where
  "isWhiteSpace c \<longleftrightarrow>
     c = 0x09 \<or> c = 0x0A \<or> c = 0x0B \<or> c = 0x0C \<or> c = 0x0D \<or> c = 0x20 \<or> c = 0xA0 \<or>
     c = 0x1680 \<or> (0x2000 \<le> c \<and> c \<le> 0x200A) \<or> c = 0x2028 \<or> c = 0x2029 \<or>
     c = 0x202F \<or> c = 0x205F \<or> c = 0x3000 \<or> c = 0xFEFF"

definition trim :: "jsstring \<Rightarrow> jsstring" where
  "trim s = rev (dropWhile isWhiteSpace (rev (dropWhile isWhiteSpace s)))"

text \<open>\<open>s.startsWith(p)\<close>: the first \<open>p.length\<close> code units of \<open>s\<close> are \<open>p\<close>.\<close>

definition startsWith :: "jsstring \<Rightarrow> jsstring \<Rightarrow> bool" where
  "startsWith s p \<longleftrightarrow> take (length p) s = p"

text \<open>\<open>s.slice(n)\<close> for a start index \<open>n \<ge> 0\<close> (the only use in the source): the
  code units from \<open>n\<close> on, the empty string when \<open>n\<close> is past the end.\<close>

definition slice :: "jsstring \<Rightarrow> nat \<Rightarrow> jsstring" where
  "slice s n = drop n s"

text \<open>\<open>s.split(sep)\<close> for a separator of one code unit (the source splits at
  \<open>"\n"\<close>): the pieces between the separators, in order; never an empty array.\<close>

fun split :: "jsstring \<Rightarrow> 16 word \<Rightarrow> jsstring list" where
  "split [] sep = [[]]"
| "split (c # cs) sep =
     (if c = sep then [] # split cs sep
      else (case split cs sep of
              [] \<Rightarrow> [[c]]
            | piece # pieces \<Rightarrow> (c # piece) # pieces))"

text \<open>\<open>xs.join(sep)\<close> on an array of strings.\<close>

fun join :: "jsstring list \<Rightarrow> jsstring \<Rightarrow> jsstring" where
  "join [] sep = []"
| "join [x] sep = x"
| "join (x # y # ys) sep = x @ sep @ join (y # ys) sep"

section \<open>The comment scan of getDiscussionBotComments\<close>

record comment_node =
  comment_body :: jsstring

text \<open>The template literal \<open>`${labelPrefix} \<cdot> Persona: `\<close>; the middle dot is U+00B7.\<close>

definition personaPrefix :: "jsstring \<Rightarrow> jsstring" where
  "personaPrefix labelPrefix = labelPrefix @ [0x20, 0xB7, 0x20] @ lit ''Persona: ''"

text \<open>
  \<open>comment.body.split("\n")[0]\<close>. The array returned by \<open>split\<close> is never empty
  (\<open>split_not_Nil\<close> below), so the index 0 is always in range.
\<close>

definition firstLine :: "jsstring \<Rightarrow> jsstring" where
  "firstLine b = (case split b LF of [] \<Rightarrow> [] | l # _ \<Rightarrow> l)"

text \<open>The \<open>for (const comment of ...)\<close> loop over the fetched comments, with the
  set \<open>personas\<close> as accumulator.\<close>

fun scanComments :: "jsstring \<Rightarrow> comment_node list \<Rightarrow> jsstring set \<Rightarrow> jsstring set" where
  "scanComments pfx [] personas = personas"
| "scanComments pfx (comment # rest) personas =
     (if startsWith (comment_body comment) pfx then
        (let name = trim (slice (firstLine (comment_body comment)) (length pfx))
         in if name \<noteq> [] then scanComments pfx rest (insert name personas)
            else scanComments pfx rest personas)
      else scanComments pfx rest personas)"

section \<open>Errors, the GraphQL endpoint and the process state\<close>

text \<open>
  \<open>Error msg\<close> is \<open>throw new Error(msg)\<close> in publisher.ts, the only kind of error the
  file creates: it declares no error class of its own. \<open>RequestError name msg\<close> is a
  rejection of the promise returned by the GraphQL client (transport, HTTP or GraphQL
  error, a rejected credential), with the name and message the client library gave it;
  publisher.ts catches nothing, so it propagates.
\<close>

datatype error = Error jsstring | RequestError jsstring jsstring

text \<open>The \<open>name\<close> property of a thrown error: \<open>new Error(msg).name\<close> is \<open>"Error"\<close>.\<close>

fun errorName :: "error \<Rightarrow> jsstring" where
  "errorName (Error message) = lit ''Error''"
| "errorName (RequestError name message) = name"

text \<open>The client built by \<open>graphql.defaults\<close>: it is determined by its
  \<open>authorization\<close> header.\<close>

record GraphQLClient =
  authorization :: jsstring

text \<open>The response shapes publisher.ts declares for its five requests.\<close>

record category_node =
  category_id :: jsstring
  category_name :: jsstring

record repository =
  repository_id :: jsstring
  discussionCategories :: "category_node list"

record search_node =
  node_id :: jsstring
  node_title :: jsstring
  node_url :: jsstring

record discussion =
  discussion_id :: jsstring
  discussion_url :: jsstring

record RepoInfo =
  repoId :: jsstring
  categoryId :: jsstring

text \<open>
  GitHub's GraphQL endpoint is not part of the repository: it is a parameter. \<open>'s\<close> is
  the state of the remote store. Each field answers one of the five documents of
  publisher.ts, given the remote state, the \<open>authorization\<close> header and the variables
  (and the \<open>first:\<close> argument written in the document). Queries read the state;
  mutations also return the new state.
\<close>

record 's github =
  queryRepository :: "'s \<Rightarrow> jsstring \<Rightarrow> jsstring \<Rightarrow> jsstring \<Rightarrow> nat \<Rightarrow> error + repository"
  querySearch :: "'s \<Rightarrow> jsstring \<Rightarrow> jsstring \<Rightarrow> nat \<Rightarrow> error + search_node list"
  mutateCreateDiscussion ::
    "'s \<Rightarrow> jsstring \<Rightarrow> jsstring \<Rightarrow> jsstring \<Rightarrow> jsstring \<Rightarrow> jsstring \<Rightarrow> (error + discussion) \<times> 's"
  mutateAddDiscussionComment :: "'s \<Rightarrow> jsstring \<Rightarrow> jsstring \<Rightarrow> jsstring \<Rightarrow> (error + jsstring) \<times> 's"
  queryComments :: "'s \<Rightarrow> jsstring \<Rightarrow> jsstring \<Rightarrow> nat \<Rightarrow> error + comment_node list"

text \<open>The requests a run has sent, in order (a trace kept beside the remote state).\<close>

datatype request =
    RepositoryRequest jsstring jsstring nat
  | SearchRequest jsstring nat
  | CreateDiscussionRequest jsstring jsstring jsstring jsstring
  | AddDiscussionCommentRequest jsstring jsstring
  | CommentsRequest jsstring nat

text \<open>What an operation runs in: the remote store, the environment variable
  \<open>process.env.GISCUS_BOT_GITHUB_TOKEN\<close> (\<open>None\<close> when unset) and the trace.\<close>

record 's world =
  remote :: 's
  env_GISCUS_BOT_GITHUB_TOKEN :: "jsstring option"
  requests :: "request list"

definition sent :: "request \<Rightarrow> 's world \<Rightarrow> 's world" where
  "sent r w = w\<lparr>requests := requests w @ [r]\<rparr>"

section \<open>publisher.ts\<close>

text \<open>
  \<open>createClient\<close>: \<open>token ?? env\<close> takes the environment variable only when \<open>token\<close> is
  \<open>undefined\<close>; \<open>!authToken\<close> holds for \<open>undefined\<close> and for the empty string.
\<close>

definition tokenRequired :: jsstring where
  "tokenRequired =
     lit ''GitHub token is required. Set GISCUS_BOT_GITHUB_TOKEN or pass it explicitly.''"

definition createClient :: "jsstring option \<Rightarrow> jsstring option \<Rightarrow> error + GraphQLClient" where
  "createClient token env =
     (let authToken = (case token of Some t \<Rightarrow> Some t | None \<Rightarrow> env)
      in case authToken of
           None \<Rightarrow> Inl (Error tokenRequired)
         | Some a \<Rightarrow>
             if a = [] then Inl (Error tokenRequired)
             else Inr \<lparr>authorization = lit ''token '' @ a\<rparr>)"

text \<open>The message of the error thrown when no category matches.\<close>

definition categoryNotFound :: "jsstring \<Rightarrow> jsstring \<Rightarrow> jsstring" where
  "categoryNotFound categoryName available =
     lit ''Discussion category '' @ [0x22] @ categoryName @ [0x22] @
     lit '' not found. Available: '' @ available"

text \<open>
  \<open>getRepoInfo\<close>. \<open>String.prototype.toLowerCase\<close> (the Unicode lower-case mapping) is a
  parameter.
\<close>

definition getRepoInfo ::
  "(jsstring \<Rightarrow> jsstring) \<Rightarrow> 's github \<Rightarrow> jsstring \<Rightarrow> jsstring \<Rightarrow> jsstring \<Rightarrow> jsstring option \<Rightarrow>
   's world \<Rightarrow> (error + RepoInfo) \<times> 's world" where
  "getRepoInfo toLowerCase gh owner repo categoryName token w =
     (case createClient token (env_GISCUS_BOT_GITHUB_TOKEN w) of
        Inl e \<Rightarrow> (Inl e, w)
      | Inr client \<Rightarrow>
          (let w' = sent (RepositoryRequest owner repo 25) w in
           case queryRepository gh (remote w) (authorization client) owner repo 25 of
             Inl e \<Rightarrow> (Inl e, w')
           | Inr result \<Rightarrow>
               (case find (\<lambda>c. toLowerCase (category_name c) = toLowerCase categoryName)
                       (discussionCategories result) of
                  None \<Rightarrow>
                    (let available = join (map category_name (discussionCategories result)) (lit '', '')
                     in (Inl (Error (categoryNotFound categoryName available)), w'))
                | Some category \<Rightarrow>
                    (Inr \<lparr>repoId = repository_id result, categoryId = category_id category\<rparr>, w'))))"

text \<open>The search string \<open>`repo:${owner}/${repo} "${title}" in:title type:discussion`\<close>.\<close>

definition searchQuery :: "jsstring \<Rightarrow> jsstring \<Rightarrow> jsstring \<Rightarrow> jsstring" where
  "searchQuery owner repo title =
     lit ''repo:'' @ owner @ lit ''/'' @ repo @ lit '' '' @ [0x22] @ title @ [0x22] @
     lit '' in:title type:discussion''"

text \<open>\<open>findDiscussion\<close>: \<open>Inr None\<close> is the returned \<open>null\<close>.\<close>

definition findDiscussion ::
  "'s github \<Rightarrow> jsstring \<Rightarrow> jsstring \<Rightarrow> jsstring \<Rightarrow> jsstring option \<Rightarrow>
   's world \<Rightarrow> (error + discussion option) \<times> 's world" where
  "findDiscussion gh owner repo title token w =
     (case createClient token (env_GISCUS_BOT_GITHUB_TOKEN w) of
        Inl e \<Rightarrow> (Inl e, w)
      | Inr client \<Rightarrow>
          (let w' = sent (SearchRequest (searchQuery owner repo title) 5) w in
           case querySearch gh (remote w) (authorization client) (searchQuery owner repo title) 5 of
             Inl e \<Rightarrow> (Inl e, w')
           | Inr nodes \<Rightarrow>
               (case find (\<lambda>d. node_title d = title) nodes of
                  Some found \<Rightarrow>
                    (Inr (Some \<lparr>discussion_id = node_id found, discussion_url = node_url found\<rparr>), w')
                | None \<Rightarrow> (Inr None, w'))))"

definition createDiscussion ::
  "'s github \<Rightarrow> jsstring \<Rightarrow> jsstring \<Rightarrow> jsstring \<Rightarrow> jsstring \<Rightarrow> jsstring option \<Rightarrow>
   's world \<Rightarrow> (error + discussion) \<times> 's world" where
  "createDiscussion gh repoId' categoryId' title body token w =
     (case createClient token (env_GISCUS_BOT_GITHUB_TOKEN w) of
        Inl e \<Rightarrow> (Inl e, w)
      | Inr client \<Rightarrow>
          (case mutateCreateDiscussion gh (remote w) (authorization client)
                  repoId' categoryId' title body of
             (result, s') \<Rightarrow>
               (result, sent (CreateDiscussionRequest repoId' categoryId' title body) (w\<lparr>remote := s'\<rparr>))))"

definition addComment ::
  "'s github \<Rightarrow> jsstring \<Rightarrow> jsstring \<Rightarrow> jsstring option \<Rightarrow>
   's world \<Rightarrow> (error + jsstring) \<times> 's world" where
  "addComment gh discussionId body token w =
     (case createClient token (env_GISCUS_BOT_GITHUB_TOKEN w) of
        Inl e \<Rightarrow> (Inl e, w)
      | Inr client \<Rightarrow>
          (case mutateAddDiscussionComment gh (remote w) (authorization client) discussionId body of
             (result, s') \<Rightarrow>
               (result, sent (AddDiscussionCommentRequest discussionId body) (w\<lparr>remote := s'\<rparr>))))"

definition getDiscussionBotComments ::
  "'s github \<Rightarrow> jsstring \<Rightarrow> jsstring \<Rightarrow> jsstring option \<Rightarrow>
   's world \<Rightarrow> (error + jsstring set) \<times> 's world" where
  "getDiscussionBotComments gh discussionId labelPrefix token w =
     (case createClient token (env_GISCUS_BOT_GITHUB_TOKEN w) of
        Inl e \<Rightarrow> (Inl e, w)
      | Inr client \<Rightarrow>
          (let w' = sent (CommentsRequest discussionId 100) w in
           case queryComments gh (remote w) (authorization client) discussionId 100 of
             Inl e \<Rightarrow> (Inl e, w')
           | Inr nodes \<Rightarrow> (Inr (scanComments (personaPrefix labelPrefix) nodes {}), w')))"

definition findOrCreateDiscussion ::
  "(jsstring \<Rightarrow> jsstring) \<Rightarrow> 's github \<Rightarrow> jsstring \<Rightarrow> jsstring \<Rightarrow> jsstring \<Rightarrow> jsstring \<Rightarrow> jsstring \<Rightarrow>
   jsstring option \<Rightarrow> 's world \<Rightarrow> (error + discussion) \<times> 's world" where
  "findOrCreateDiscussion toLowerCase gh owner repo categoryName title body token w =
     (case findDiscussion gh owner repo title token w of
        (Inl e, w1) \<Rightarrow> (Inl e, w1)
      | (Inr (Some existing), w1) \<Rightarrow> (Inr existing, w1)
      | (Inr None, w1) \<Rightarrow>
          (case getRepoInfo toLowerCase gh owner repo categoryName token w1 of
             (Inl e, w2) \<Rightarrow> (Inl e, w2)
           | (Inr repoInfo, w2) \<Rightarrow>
               createDiscussion gh (repoId repoInfo) (categoryId repoInfo) title body token w2))"

section \<open>The comment body format\<close>

text \<open>
  Modelled from the spec: the comment body wire format of sections 4.5 and 6,
  \<open>"<labelPrefix> \<cdot> Persona: <personaName>\n\n<text>"\<close>. The code that formats a
  comment (the caller of \<open>addComment\<close>) is not under src/.
\<close>

definition commentBody :: "jsstring \<Rightarrow> jsstring \<Rightarrow> jsstring \<Rightarrow> jsstring" where
  "commentBody labelPrefix personaName text =
     labelPrefix @ [0x20, 0xB7, 0x20] @ lit ''Persona: '' @ personaName @ [LF, LF] @ text"

section \<open>A remote with fixed answers\<close>

text \<open>
  An endpoint for concrete runs: it answers every repository query with the repository
  \<open>r\<close>, every search with the ranking \<open>ranking\<close> and every comment query with the
  comments \<open>comments\<close>, each cut to the \<open>first:\<close> argument as a GraphQL connection
  does; its state counts the mutations it has accepted.
\<close>

definition fixedGithub :: "repository \<Rightarrow> search_node list \<Rightarrow> comment_node list \<Rightarrow> nat github" where
  "fixedGithub r ranking comments =
     \<lparr>queryRepository = (\<lambda>s auth owner repo n.
         Inr (r\<lparr>discussionCategories := take n (discussionCategories r)\<rparr>)),
      querySearch = (\<lambda>s auth q n. Inr (take n ranking)),
      mutateCreateDiscussion = (\<lambda>s auth rid cid title body.
         (Inr \<lparr>discussion_id = lit ''D_new'', discussion_url = lit ''https://example.test/d/new''\<rparr>,
          Suc s)),
      mutateAddDiscussionComment = (\<lambda>s auth did body. (Inr (lit ''DC_new''), Suc s)),
      queryComments = (\<lambda>s auth did n. Inr (take n comments))\<rparr>"

definition startWorld :: "nat world" where
  "startWorld = \<lparr>remote = 0, env_GISCUS_BOT_GITHUB_TOKEN = Some (lit ''ghp_x''), requests = []\<rparr>"

definition exampleRepository :: repository where
  "exampleRepository =
     \<lparr>repository_id = lit ''R_1'',
      discussionCategories =
        [\<lparr>category_id = lit ''DIC_1'', category_name = lit ''General''\<rparr>,
         \<lparr>category_id = lit ''DIC_2'', category_name = lit ''Blog Comments''\<rparr>]\<rparr>"

text \<open>The default label prefix of cli.ts and action.ts; the robot emoji U+1F916 is the
  surrogate pair D83E DD16.\<close>

definition robotLabel :: jsstring where
  "robotLabel = [0xD83E, 0xDD16] @ lit '' **AI-Generated Comment**''"

definition examplePage :: "comment_node list" where
  "examplePage =
     [\<lparr>comment_body = lit ''Nice write-up, thanks!''\<rparr>,
      \<lparr>comment_body = commentBody robotLabel (lit ''Curious Reader'') (lit ''Great post!'')\<rparr>,
      \<lparr>comment_body = commentBody (lit ''AI'') (lit ''Skeptic'') (lit ''Hm.'')\<rparr>,
      \<lparr>comment_body = robotLabel @ lit '' - Persona: Nobody''\<rparr>]"

text \<open>
  A page on which the labelled comment of "Curious Reader" has a tab and a no-break
  space before the name and an ideographic space and a carriage return after it, and
  on which another labelled comment has only white space on the rest of its first line.
\<close>

definition paddedPage :: "comment_node list" where
  "paddedPage =
     [\<lparr>comment_body = lit ''Nice write-up, thanks!''\<rparr>,
      \<lparr>comment_body = robotLabel @ [0x20, 0xB7, 0x20] @ lit ''Persona: '' @ [0x09, 0xA0] @
         lit ''Curious Reader'' @ [0x3000, 0x0D] @ [LF, LF] @ lit ''Great post!''\<rparr>,
      \<lparr>comment_body = robotLabel @ [0x20, 0xB7, 0x20] @ lit ''Persona: '' @ [0x20, 0x09] @
         [LF] @ lit ''Skeptic''\<rparr>,
      \<lparr>comment_body = commentBody (lit ''AI'') (lit ''Skeptic'') (lit ''Hm.'')\<rparr>,
      \<lparr>comment_body = robotLabel @ lit '' - Persona: Nobody''\<rparr>]"

text \<open>A label prefix of two lines.\<close>

definition multiLineLabel :: jsstring where
  "multiLineLabel = lit ''AI-generated'' @ [LF] @ lit ''comment''"

text \<open>Two search results whose titles differ by a suffix.\<close>

definition myPost :: search_node where
  "myPost =
     \<lparr>node_id = lit ''D_1'', node_title = lit ''My Post'',
      node_url = lit ''https://example.test/d/1''\<rparr>"

definition myPost2 :: search_node where
  "myPost2 =
     \<lparr>node_id = lit ''D_2'', node_title = lit ''My Post 2'',
      node_url = lit ''https://example.test/d/2''\<rparr>"

text \<open>
  An instance of the \<open>toLowerCase\<close> parameter for concrete runs: what
  \<open>String.prototype.toLowerCase\<close> does on a string of ASCII code units (A to Z move
  to a to z, every other code unit below 0x80 stays).
\<close>

definition asciiLowerCase :: "jsstring \<Rightarrow> jsstring" where
  "asciiLowerCase s = map (\<lambda>c. if 0x41 \<le> c \<and> c \<le> 0x5A then c + 0x20 else c) s"

text \<open>A process without the environment variable.\<close>

definition noTokenWorld :: "nat world" where
  "noTokenWorld = \<lparr>remote = 0, env_GISCUS_BOT_GITHUB_TOKEN = None, requests = []\<rparr>"

text \<open>A ranking of six results: five near misses, then the exact title.\<close>

definition nearMiss :: "16 word \<Rightarrow> search_node" where
  "nearMiss k =
     \<lparr>node_id = lit ''D_1'' @ [k], node_title = lit ''My Post, part '' @ [k],
      node_url = lit ''https://example.test/d/1'' @ [k]\<rparr>"

definition sixResults :: "search_node list" where
  "sixResults = map nearMiss [0x31, 0x32, 0x33, 0x34, 0x35] @ [myPost]"


section \<open>The orchestrator\<close>

text \<open>
  Modelled from the spec: the Publication Orchestrator \<open>findOrCreateAndPublish\<close> of
  sections 4.6 and 6. The code that sequences the calls into publisher.ts (imported by
  cli.ts and action.ts from core/generator.js) is not under src/. A request's personas
  are pairs of a persona name and its drafted comment text. The result is the
  discussion's id and url (the fields \<open>discussionId\<close> and \<open>discussionUrl\<close> of the
  spec, primed here), the personas published in this call and the personas
  skipped, both in the order of the request.
\<close>

record publication =
  discussionId' :: jsstring
  discussionUrl' :: jsstring
  published :: "jsstring list"
  skipped :: "jsstring list"

text \<open>
  Modelled from the spec: step 3 of section 4.6 and the error rule of section 7. For
  each persona of the request, in order: one that is in the scanned set is skipped, any
  other gets one comment through \<open>addComment\<close>, with the body of section 4.5; the
  first failure aborts the remaining steps and surfaces unmodified.
\<close>

fun publishPersonas ::
  "'s github \<Rightarrow> jsstring \<Rightarrow> jsstring \<Rightarrow> jsstring set \<Rightarrow> (jsstring \<times> jsstring) list \<Rightarrow>
   jsstring option \<Rightarrow> jsstring list \<Rightarrow> jsstring list \<Rightarrow> 's world \<Rightarrow>
   (error + jsstring list \<times> jsstring list) \<times> 's world" where
  "publishPersonas gh did labelPrefix scanned [] token pub skip w = (Inr (pub, skip), w)"
| "publishPersonas gh did labelPrefix scanned ((personaName, text) # rest) token pub skip w =
     (if personaName \<in> scanned then
        publishPersonas gh did labelPrefix scanned rest token pub (skip @ [personaName]) w
      else
        (case addComment gh did (commentBody labelPrefix personaName text) token w of
           (Inl e, w1) \<Rightarrow> (Inl e, w1)
         | (Inr commentId, w1) \<Rightarrow>
             publishPersonas gh did labelPrefix scanned rest token (pub @ [personaName]) skip w1))"

text \<open>
  Modelled from the spec: steps 1 to 4 of section 4.6. Locate, or resolve and create
  (\<open>findOrCreateDiscussion\<close> of publisher.ts); scan the discussion
  (\<open>getDiscussionBotComments\<close>); publish the personas that are not in the scanned set;
  return the discussion and the two lists.
\<close>

definition findOrCreateAndPublish ::
  "(jsstring \<Rightarrow> jsstring) \<Rightarrow> 's github \<Rightarrow> jsstring \<Rightarrow> jsstring \<Rightarrow> jsstring \<Rightarrow> jsstring \<Rightarrow> jsstring \<Rightarrow>
   jsstring \<Rightarrow> (jsstring \<times> jsstring) list \<Rightarrow> jsstring option \<Rightarrow> 's world \<Rightarrow>
   (error + publication) \<times> 's world" where
  "findOrCreateAndPublish toLowerCase gh owner repo categoryName title body labelPrefix personas token w =
     (case findOrCreateDiscussion toLowerCase gh owner repo categoryName title body token w of
        (Inl e, w1) \<Rightarrow> (Inl e, w1)
      | (Inr d, w1) \<Rightarrow>
          (case getDiscussionBotComments gh (discussion_id d) labelPrefix token w1 of
             (Inl e, w2) \<Rightarrow> (Inl e, w2)
           | (Inr scanned, w2) \<Rightarrow>
               (case publishPersonas gh (discussion_id d) labelPrefix scanned personas token [] [] w2 of
                  (Inl e, w3) \<Rightarrow> (Inl e, w3)
                | (Inr (pub, skip), w3) \<Rightarrow>
                    (Inr \<lparr>discussionId' = discussion_id d, discussionUrl' = discussion_url d,
                          published = pub, skipped = skip\<rparr>, w3))))"

text \<open>A request of two personas, the state after a locate that found "My Post", and
  a page whose one comment is labelled for a persona name with a trailing space.\<close>

definition examplePersonas :: "(jsstring \<times> jsstring) list" where
  "examplePersonas =
     [(lit ''Curious Reader'', lit ''One more thought.''), (lit ''Skeptic'', lit ''Is that so?'')]"

definition afterLocate :: "nat world" where
  "afterLocate =
     startWorld\<lparr>requests :=
       [SearchRequest (searchQuery (lit ''user'') (lit ''blog'') (lit ''My Post'')) 5]\<rparr>"

definition trailingSpacePage :: "comment_node list" where
  "trailingSpacePage = [\<lparr>comment_body = commentBody robotLabel (lit ''Bob '') (lit ''Hi'')\<rparr>]"

section \<open>String lemmas\<close>

lemma split_not_Nil: "split s sep \<noteq> []"
  by (induction s) (auto split: list.splits)

lemma split_first: "\<exists>pieces. split s sep = takeWhile (\<lambda>c. c \<noteq> sep) s # pieces"
  by (induction s) (auto split: list.splits)

lemma firstLine_takeWhile: "firstLine b = takeWhile (\<lambda>c. c \<noteq> LF) b"
  using split_first [of b LF] by (auto simp: firstLine_def)

lemma startsWith_append: "startsWith (p @ r) p"
  by (simp add: startsWith_def)

lemma startsWith_iff: "startsWith s p \<longleftrightarrow> (\<exists>r. s = p @ r)"
  by (metis startsWith_def append_eq_conv_conj)

lemma client_startWorld:
  "createClient None (env_GISCUS_BOT_GITHUB_TOKEN startWorld) =
     Inr \<lparr>authorization = lit ''token ghp_x''\<rparr>"
  by (simp add: createClient_def startWorld_def lit_def)

section \<open>The scanner\<close>

lemma scanComments_set:
  "scanComments p cs acc =
     acc \<union> {n. \<exists>c\<in>set cs. startsWith (comment_body c) p \<and>
                 n = trim (slice (firstLine (comment_body c)) (length p)) \<and> n \<noteq> []}"
  by (induction cs arbitrary: acc) (auto simp: Let_def)

lemma isWhiteSpace_iff:
  "isWhiteSpace u \<longleftrightarrow>
     u \<in> {0x09, 0x0A, 0x0B, 0x0C, 0x0D, 0x20, 0xA0, 0x1680, 0x2028, 0x2029, 0x202F, 0x205F,
          0x3000, 0xFEFF} \<union> {0x2000..0x200A}"
  by (auto simp: isWhiteSpace_def)

lemma dropWhile_hd: "xs \<noteq> [] \<Longrightarrow> \<not> P (hd xs) \<Longrightarrow> dropWhile P xs = xs"
  by (cases xs) auto

lemma rev_dropWhile_split: "rev (dropWhile P (rev t)) @ rev (takeWhile P (rev t)) = t"
proof -
  have "rev (dropWhile P (rev t)) @ rev (takeWhile P (rev t)) =
      rev (takeWhile P (rev t) @ dropWhile P (rev t))"
    by (simp only: rev_append)
  also have "\<dots> = t"
    by (simp only: takeWhile_dropWhile_id rev_rev_ident)
  finally show ?thesis .
qed

lemma trim_split:
  "dropWhile isWhiteSpace s =
     trim s @ rev (takeWhile isWhiteSpace (rev (dropWhile isWhiteSpace s)))"
  by (simp only: trim_def rev_dropWhile_split)

lemma trim_decompose:
  "\<exists>l r. s = l @ trim s @ r \<and> (\<forall>u\<in>set l. isWhiteSpace u) \<and> (\<forall>u\<in>set r. isWhiteSpace u)"
proof (intro exI conjI)
  have "s = takeWhile isWhiteSpace s @ dropWhile isWhiteSpace s"
    by (simp only: takeWhile_dropWhile_id)
  also have "dropWhile isWhiteSpace s =
      trim s @ rev (takeWhile isWhiteSpace (rev (dropWhile isWhiteSpace s)))"
    by (rule trim_split)
  finally show "s = takeWhile isWhiteSpace s @ trim s @
      rev (takeWhile isWhiteSpace (rev (dropWhile isWhiteSpace s)))" .
  show "\<forall>u\<in>set (takeWhile isWhiteSpace s). isWhiteSpace u"
    by (auto dest: set_takeWhileD)
  show "\<forall>u\<in>set (rev (takeWhile isWhiteSpace (rev (dropWhile isWhiteSpace s)))). isWhiteSpace u"
    by (auto dest: set_takeWhileD)
qed

lemma trim_ends:
  assumes "trim s \<noteq> []"
  shows "\<not> isWhiteSpace (hd (trim s))" and "\<not> isWhiteSpace (last (trim s))"
proof -
  let ?t = "dropWhile isWhiteSpace s"
  let ?d = "dropWhile isWhiteSpace (rev ?t)"
  have d: "?d \<noteq> []"
    using assms by (simp add: trim_def)
  have "last (trim s) = hd ?d"
    using d by (simp add: trim_def last_rev)
  moreover have "\<not> isWhiteSpace (hd ?d)"
    using d by (rule hd_dropWhile)
  ultimately show "\<not> isWhiteSpace (last (trim s))"
    by simp
  have t: "?t \<noteq> []"
  proof
    assume "?t = []"
    then have "?d = []" by (simp only: rev.simps(1) dropWhile.simps(1))
    with d show False by (rule notE)
  qed
  have "hd ?t = hd (trim s @ rev (takeWhile isWhiteSpace (rev ?t)))"
    by (rule arg_cong [OF trim_split])
  also have "\<dots> = hd (trim s)"
    using assms by (rule hd_append2)
  finally have "hd (trim s) = hd ?t" by (rule sym)
  moreover have "\<not> isWhiteSpace (hd ?t)"
    using t by (rule hd_dropWhile)
  ultimately show "\<not> isWhiteSpace (hd (trim s))"
    by simp
qed

lemma trim_unique:
  assumes "s = l @ n @ r" "\<forall>u\<in>set l. isWhiteSpace u" "\<forall>u\<in>set r. isWhiteSpace u"
    "n \<noteq> []" "\<not> isWhiteSpace (hd n)" "\<not> isWhiteSpace (last n)"
  shows "trim s = n"
proof -
  have "dropWhile isWhiteSpace s = dropWhile isWhiteSpace (n @ r)"
    using assms(1,2) by simp
  also have "\<dots> = n @ r"
    using assms(4,5) by (simp add: dropWhile_hd)
  finally have a: "dropWhile isWhiteSpace s = n @ r" .
  have "dropWhile isWhiteSpace (rev r @ rev n) = dropWhile isWhiteSpace (rev n)"
    by (rule dropWhile_append2) (use assms(3) in simp)
  then have "dropWhile isWhiteSpace (rev (n @ r)) = dropWhile isWhiteSpace (rev n)"
    by (simp only: rev_append)
  also have "\<dots> = rev n"
    using assms(4,6) by (simp add: dropWhile_hd hd_rev)
  finally show ?thesis
    by (simp add: trim_def a)
qed

lemma trim_iff:
  "A \<and> n = trim s \<and> n \<noteq> [] \<longleftrightarrow>
     (\<exists>l r. A \<and> s = l @ n @ r \<and> (\<forall>u\<in>set l. isWhiteSpace u) \<and> (\<forall>u\<in>set r. isWhiteSpace u) \<and>
        n \<noteq> [] \<and> \<not> isWhiteSpace (hd n) \<and> \<not> isWhiteSpace (last n))"
proof
  assume h: "A \<and> n = trim s \<and> n \<noteq> []"
  obtain l r where "s = l @ trim s @ r" "\<forall>u\<in>set l. isWhiteSpace u" "\<forall>u\<in>set r. isWhiteSpace u"
    using trim_decompose [of s] by blast
  moreover have ne: "trim s \<noteq> []"
    using h by blast
  moreover note trim_ends [OF ne]
  ultimately show "\<exists>l r. A \<and> s = l @ n @ r \<and> (\<forall>u\<in>set l. isWhiteSpace u) \<and>
        (\<forall>u\<in>set r. isWhiteSpace u) \<and> n \<noteq> [] \<and> \<not> isWhiteSpace (hd n) \<and> \<not> isWhiteSpace (last n)"
    using h by (intro exI [of _ l] exI [of _ r]) simp
next
  assume "\<exists>l r. A \<and> s = l @ n @ r \<and> (\<forall>u\<in>set l. isWhiteSpace u) \<and> (\<forall>u\<in>set r. isWhiteSpace u) \<and>
        n \<noteq> [] \<and> \<not> isWhiteSpace (hd n) \<and> \<not> isWhiteSpace (last n)"
  then obtain l r where "A" "s = l @ n @ r" "\<forall>u\<in>set l. isWhiteSpace u" "\<forall>u\<in>set r. isWhiteSpace u"
      "n \<noteq> []" "\<not> isWhiteSpace (hd n)" "\<not> isWhiteSpace (last n)"
    by blast
  then show "A \<and> n = trim s \<and> n \<noteq> []"
    using trim_unique [of s l n r] by simp
qed

text \<open>
  C3 (prefix-boundary parsing). When the client is built and the comment query answers
  with the page \<open>nodes\<close>, the scanner returns exactly the set of names \<open>n\<close> for which some
  comment of the page has a body starting with \<open>labelPrefix\<close>, \<open>" \<cdot> Persona: "\<close>, and
  what is left of the body's first line (the body up to its first line feed) once the
  first \<open>prefix.length\<close> code units are removed is \<open>n\<close> between two runs of white
  space, \<open>n\<close> being non-empty and neither starting nor ending with white space. A
  comment whose body does not start with that prefix, or whose remainder is all white
  space, adds nothing. White space is the set of code units that
  \<open>String.prototype.trim\<close> removes.
\<close>

theorem scanner_prefix_boundary:
  assumes "createClient token (env_GISCUS_BOT_GITHUB_TOKEN w) = Inr client"
    and "queryComments gh (remote w) (authorization client) discussionId 100 = Inr nodes"
  shows "fst (getDiscussionBotComments gh discussionId labelPrefix token w) =
     Inr {n. \<exists>c\<in>set nodes. \<exists>l r.
            (\<exists>rest. comment_body c = labelPrefix @ [0x20, 0xB7, 0x20] @ lit ''Persona: '' @ rest) \<and>
            drop (length (labelPrefix @ [0x20, 0xB7, 0x20] @ lit ''Persona: ''))
              (takeWhile (\<lambda>u. u \<noteq> 0x0A) (comment_body c)) = l @ n @ r \<and>
            (\<forall>u\<in>set l. isWhiteSpace u) \<and> (\<forall>u\<in>set r. isWhiteSpace u) \<and>
            n \<noteq> [] \<and> \<not> isWhiteSpace (hd n) \<and> \<not> isWhiteSpace (last n)} \<and>
     (\<forall>u. isWhiteSpace u \<longleftrightarrow>
        u \<in> {0x09, 0x0A, 0x0B, 0x0C, 0x0D, 0x20, 0xA0, 0x1680, 0x2028, 0x2029, 0x202F, 0x205F,
             0x3000, 0xFEFF} \<union> {0x2000..0x200A})"
proof (intro conjI allI)
  let ?p = "labelPrefix @ [0x20, 0xB7, 0x20] @ lit ''Persona: ''"
  let ?rem = "\<lambda>c. drop (length ?p) (takeWhile (\<lambda>u. u \<noteq> 0x0A) (comment_body c))"
  have "fst (getDiscussionBotComments gh discussionId labelPrefix token w) =
      Inr {n. \<exists>c\<in>set nodes. (\<exists>rest. comment_body c = ?p @ rest) \<and> n = trim (?rem c) \<and> n \<noteq> []}"
    using assms
    by (simp add: getDiscussionBotComments_def scanComments_set startsWith_iff
        firstLine_takeWhile slice_def personaPrefix_def LF_def)
  also have "{n. \<exists>c\<in>set nodes. (\<exists>rest. comment_body c = ?p @ rest) \<and> n = trim (?rem c) \<and> n \<noteq> []} =
      {n. \<exists>c\<in>set nodes. \<exists>l r. (\<exists>rest. comment_body c = ?p @ rest) \<and> ?rem c = l @ n @ r \<and>
            (\<forall>u\<in>set l. isWhiteSpace u) \<and> (\<forall>u\<in>set r. isWhiteSpace u) \<and>
            n \<noteq> [] \<and> \<not> isWhiteSpace (hd n) \<and> \<not> isWhiteSpace (last n)}"
    by (simp only: trim_iff)
  finally show "fst (getDiscussionBotComments gh discussionId labelPrefix token w) =
     Inr {n. \<exists>c\<in>set nodes. \<exists>l r.
            (\<exists>rest. comment_body c = labelPrefix @ [0x20, 0xB7, 0x20] @ lit ''Persona: '' @ rest) \<and>
            drop (length (labelPrefix @ [0x20, 0xB7, 0x20] @ lit ''Persona: ''))
              (takeWhile (\<lambda>u. u \<noteq> 0x0A) (comment_body c)) = l @ n @ r \<and>
            (\<forall>u\<in>set l. isWhiteSpace u) \<and> (\<forall>u\<in>set r. isWhiteSpace u) \<and>
            n \<noteq> [] \<and> \<not> isWhiteSpace (hd n) \<and> \<not> isWhiteSpace (last n)}"
    by simp
next
  fix u :: "16 word"
  show "isWhiteSpace u \<longleftrightarrow>
        u \<in> {0x09, 0x0A, 0x0B, 0x0C, 0x0D, 0x20, 0xA0, 0x1680, 0x2028, 0x2029, 0x202F, 0x205F,
             0x3000, 0xFEFF} \<union> {0x2000..0x200A}"
    by (rule isWhiteSpace_iff)
qed


text \<open>
  The example of the spec, with white space round the name: on a page with a human
  reply, the labelled comment of "Curious Reader" (padded by a tab, a no-break space,
  an ideographic space and a carriage return), a labelled comment with an empty name, a
  comment labelled with another prefix and one with another separator, the scan yields
  "Curious Reader" alone.
\<close>

theorem scanner_prefix_boundary_witness:
  "createClient None (env_GISCUS_BOT_GITHUB_TOKEN startWorld) =
     Inr \<lparr>authorization = lit ''token ghp_x''\<rparr> \<and>
   queryComments (fixedGithub exampleRepository [] paddedPage) (remote startWorld)
     (authorization \<lparr>authorization = lit ''token ghp_x''\<rparr>) (lit ''D_1'') 100 = Inr paddedPage \<and>
   fst (getDiscussionBotComments (fixedGithub exampleRepository [] paddedPage) (lit ''D_1'')
          robotLabel None startWorld) =
     Inr {n. \<exists>c\<in>set paddedPage. \<exists>l r.
            (\<exists>rest. comment_body c = robotLabel @ [0x20, 0xB7, 0x20] @ lit ''Persona: '' @ rest) \<and>
            drop (length (robotLabel @ [0x20, 0xB7, 0x20] @ lit ''Persona: ''))
              (takeWhile (\<lambda>u. u \<noteq> 0x0A) (comment_body c)) = l @ n @ r \<and>
            (\<forall>u\<in>set l. isWhiteSpace u) \<and> (\<forall>u\<in>set r. isWhiteSpace u) \<and>
            n \<noteq> [] \<and> \<not> isWhiteSpace (hd n) \<and> \<not> isWhiteSpace (last n)} \<and>
   fst (getDiscussionBotComments (fixedGithub exampleRepository [] paddedPage) (lit ''D_1'')
          robotLabel None startWorld) =
     Inr {lit ''Curious Reader''}"
proof -
  have q: "queryComments (fixedGithub exampleRepository [] paddedPage) (remote startWorld)
     (authorization \<lparr>authorization = lit ''token ghp_x''\<rparr>) (lit ''D_1'') 100 = Inr paddedPage"
    by (simp add: fixedGithub_def paddedPage_def)
  have v: "fst (getDiscussionBotComments (fixedGithub exampleRepository [] paddedPage)
      (lit ''D_1'') robotLabel None startWorld) = Inr {lit ''Curious Reader''}"
    by code_simp
  show ?thesis
    by (intro conjI client_startWorld q v
        conjunct1 [OF scanner_prefix_boundary [OF client_startWorld q, of robotLabel]])
qed

lemma takeWhile_no_sep: "sep \<notin> set xs \<Longrightarrow> takeWhile (\<lambda>c. c \<noteq> sep) (xs @ sep # ys) = xs"
  by (induction xs) auto

lemma trim_id:
  assumes "s \<noteq> []" "\<not> isWhiteSpace (hd s)" "\<not> isWhiteSpace (last s)"
  shows "trim s = s"
proof -
  have "dropWhile isWhiteSpace s = s"
    using assms by (simp add: dropWhile_hd)
  moreover have "dropWhile isWhiteSpace (rev s) = rev s"
    using assms by (simp add: dropWhile_hd hd_rev)
  ultimately show ?thesis by (simp add: trim_def)
qed

lemma LF_notin_personaPrefix: "LF \<notin> set labelPrefix \<Longrightarrow> LF \<notin> set (personaPrefix labelPrefix)"
  by (simp add: personaPrefix_def lit_def LF_def)

lemma commentBody_split:
  "commentBody labelPrefix personaName text = personaPrefix labelPrefix @ personaName @ [LF, LF] @ text"
  by (simp add: commentBody_def personaPrefix_def)

lemma scan_commentBody:
  assumes "LF \<notin> set labelPrefix" "personaName \<noteq> []" "LF \<notin> set personaName"
    "\<not> isWhiteSpace (hd personaName)" "\<not> isWhiteSpace (last personaName)"
  shows "startsWith (commentBody labelPrefix personaName text) (personaPrefix labelPrefix)"
    and "trim (slice (firstLine (commentBody labelPrefix personaName text))
                 (length (personaPrefix labelPrefix))) = personaName"
proof -
  show "startsWith (commentBody labelPrefix personaName text) (personaPrefix labelPrefix)"
    by (simp add: commentBody_split startsWith_append)
  have "LF \<notin> set (personaPrefix labelPrefix @ personaName)"
    using assms LF_notin_personaPrefix by simp
  then have "firstLine (commentBody labelPrefix personaName text) =
      personaPrefix labelPrefix @ personaName"
    using takeWhile_no_sep [of LF "personaPrefix labelPrefix @ personaName" "LF # text"]
    by (simp add: firstLine_takeWhile commentBody_split)
  then show "trim (slice (firstLine (commentBody labelPrefix personaName text))
                 (length (personaPrefix labelPrefix))) = personaName"
    using assms by (simp add: slice_def trim_id)
qed

lemma scan_contains:
  assumes "\<lparr>comment_body = commentBody labelPrefix personaName text\<rparr> \<in> set nodes"
    "LF \<notin> set labelPrefix" "personaName \<noteq> []" "LF \<notin> set personaName"
    "\<not> isWhiteSpace (hd personaName)" "\<not> isWhiteSpace (last personaName)"
  shows "personaName \<in> scanComments (personaPrefix labelPrefix) nodes acc"
proof -
  let ?c = "\<lparr>comment_body = commentBody labelPrefix personaName text\<rparr>"
  have "startsWith (comment_body ?c) (personaPrefix labelPrefix)"
    and "trim (slice (firstLine (comment_body ?c)) (length (personaPrefix labelPrefix))) = personaName"
    using scan_commentBody [OF assms(2-6)] by simp_all
  then show ?thesis
    using assms(1,3) unfolding scanComments_set by (intro UnI2 CollectI bexI [of _ ?c]) simp_all
qed

text \<open>
  C4 (round trip of the comment wire format), as amended. For a label prefix without a
  line feed and a persona name that is non-empty, without a line feed and without
  white space at either end, scanning a page that holds the one comment
  \<open>"<labelPrefix> \<cdot> Persona: <personaName>\n\n<text>"\<close> with the same label prefix
  yields exactly \<open>{personaName}\<close>, whatever the text.
\<close>

theorem wire_format_round_trip:
  assumes "createClient token (env_GISCUS_BOT_GITHUB_TOKEN w) = Inr client"
    and "queryComments gh (remote w) (authorization client) discussionId 100 =
           Inr [\<lparr>comment_body = commentBody labelPrefix personaName text\<rparr>]"
    and "LF \<notin> set labelPrefix"
    and "personaName \<noteq> []" and "LF \<notin> set personaName"
    and "\<not> isWhiteSpace (hd personaName)" and "\<not> isWhiteSpace (last personaName)"
  shows "fst (getDiscussionBotComments gh discussionId labelPrefix token w) = Inr {personaName}"
  using assms(1,2,4) scan_commentBody [OF assms(3-7), of "text"]
  by (simp add: getDiscussionBotComments_def)

text \<open>
  The claim as stated ranges over every label prefix. With the two-line prefix
  \<open>"AI-generated\ncomment"\<close> the first line of the body is shorter than the prefix, the
  remainder is empty and the scan of Bob's comment yields the empty set.
\<close>

theorem wire_format_round_trip_counterexample:
  "lit ''Bob'' \<noteq> [] \<and> LF \<notin> set (lit ''Bob'') \<and>
   \<not> isWhiteSpace (hd (lit ''Bob'')) \<and> \<not> isWhiteSpace (last (lit ''Bob'')) \<and>
   fst (getDiscussionBotComments
         (fixedGithub exampleRepository []
            [\<lparr>comment_body = commentBody multiLineLabel (lit ''Bob'') (lit ''Hi'')\<rparr>])
         (lit ''D_1'') multiLineLabel None startWorld) = Inr {} \<and>
   fst (getDiscussionBotComments
         (fixedGithub exampleRepository []
            [\<lparr>comment_body = commentBody multiLineLabel (lit ''Bob'') (lit ''Hi'')\<rparr>])
         (lit ''D_1'') multiLineLabel None startWorld) \<noteq> Inr {lit ''Bob''}"
  by code_simp

theorem wire_format_round_trip_witness:
  "createClient None (env_GISCUS_BOT_GITHUB_TOKEN startWorld) =
     Inr \<lparr>authorization = lit ''token ghp_x''\<rparr> \<and>
   queryComments
     (fixedGithub exampleRepository []
        [\<lparr>comment_body = commentBody robotLabel (lit ''Curious Reader'') (lit ''Great post!'')\<rparr>])
     (remote startWorld) (authorization \<lparr>authorization = lit ''token ghp_x''\<rparr>) (lit ''D_1'') 100 =
     Inr [\<lparr>comment_body = commentBody robotLabel (lit ''Curious Reader'') (lit ''Great post!'')\<rparr>] \<and>
   LF \<notin> set robotLabel \<and> lit ''Curious Reader'' \<noteq> [] \<and> LF \<notin> set (lit ''Curious Reader'') \<and>
   \<not> isWhiteSpace (hd (lit ''Curious Reader'')) \<and> \<not> isWhiteSpace (last (lit ''Curious Reader'')) \<and>
   fst (getDiscussionBotComments
          (fixedGithub exampleRepository []
             [\<lparr>comment_body = commentBody robotLabel (lit ''Curious Reader'') (lit ''Great post!'')\<rparr>])
          (lit ''D_1'') robotLabel None startWorld) = Inr {lit ''Curious Reader''}"
proof -
  have q: "queryComments
     (fixedGithub exampleRepository []
        [\<lparr>comment_body = commentBody robotLabel (lit ''Curious Reader'') (lit ''Great post!'')\<rparr>])
     (remote startWorld) (authorization \<lparr>authorization = lit ''token ghp_x''\<rparr>) (lit ''D_1'') 100 =
     Inr [\<lparr>comment_body = commentBody robotLabel (lit ''Curious Reader'') (lit ''Great post!'')\<rparr>]"
    by (simp add: fixedGithub_def)
  have h: "LF \<notin> set robotLabel" "lit ''Curious Reader'' \<noteq> []" "LF \<notin> set (lit ''Curious Reader'')"
    "\<not> isWhiteSpace (hd (lit ''Curious Reader''))" "\<not> isWhiteSpace (last (lit ''Curious Reader''))"
    by (simp_all add: robotLabel_def lit_def LF_def isWhiteSpace_def)
  show ?thesis
    using wire_format_round_trip [OF client_startWorld q h] client_startWorld q h by simp
qed

section \<open>The locator\<close>

lemma search_fixed:
  "querySearch (fixedGithub r ranking comments) s auth q n = Inr (take n ranking)"
  by (simp add: fixedGithub_def)

lemma findDiscussion_answer:
  assumes "createClient token (env_GISCUS_BOT_GITHUB_TOKEN w) = Inr client"
    and "querySearch gh (remote w) (authorization client) (searchQuery owner repo title) 5 = Inr nodes"
  shows "findDiscussion gh owner repo title token w =
     (Inr (map_option (\<lambda>d. \<lparr>discussion_id = node_id d, discussion_url = node_url d\<rparr>)
             (find (\<lambda>d. node_title d = title) nodes)),
      sent (SearchRequest (searchQuery owner repo title) 5) w)"
  using assms by (simp add: findDiscussion_def Let_def split: option.split)

lemma findDiscussion_same_remote:
  assumes "remote w1 = remote w" "env_GISCUS_BOT_GITHUB_TOKEN w1 = env_GISCUS_BOT_GITHUB_TOKEN w"
  shows "fst (findDiscussion gh owner repo title token w1) = fst (findDiscussion gh owner repo title token w)"
  using assms by (simp add: findDiscussion_def Let_def split: sum.split option.split)

lemma findDiscussion_world:
  "findDiscussion gh owner repo title token w = (Inr r, w1) \<Longrightarrow>
     w1 = sent (SearchRequest (searchQuery owner repo title) 5) w"
  by (auto simp: findDiscussion_def Let_def split: sum.splits option.splits)

text \<open>
  C2 (exact-title filtering). When the client is built and the search answers with
  \<open>nodes\<close>, \<open>findDiscussion\<close> returns a discussion exactly when it is the id and url of
  the first node whose title equals the candidate title code unit for code unit;
  a node whose title merely contains the candidate is never returned.
\<close>

theorem exact_title_filtering:
  assumes "createClient token (env_GISCUS_BOT_GITHUB_TOKEN w) = Inr client"
    and "querySearch gh (remote w) (authorization client) (searchQuery owner repo title) 5 = Inr nodes"
  shows "fst (findDiscussion gh owner repo title token w) = Inr (Some existing) \<longleftrightarrow>
     (\<exists>i<length nodes. node_title (nodes ! i) = title \<and>
        existing = \<lparr>discussion_id = node_id (nodes ! i), discussion_url = node_url (nodes ! i)\<rparr> \<and>
        (\<forall>j<i. node_title (nodes ! j) \<noteq> title))"
proof -
  have "fst (findDiscussion gh owner repo title token w) = Inr (Some existing) \<longleftrightarrow>
      (\<exists>d. find (\<lambda>d. node_title d = title) nodes = Some d \<and>
           existing = \<lparr>discussion_id = node_id d, discussion_url = node_url d\<rparr>)"
    by (auto simp: findDiscussion_answer [OF assms])
  then show ?thesis
    by (auto simp: find_Some_iff)
qed

text \<open>
  The example of the spec, in both orders of the two results: for the title "My Post"
  the discussion D_1 titled "My Post" is returned, also when "My Post 2" is ranked
  first.
\<close>

theorem exact_title_filtering_witness:
  "createClient None (env_GISCUS_BOT_GITHUB_TOKEN startWorld) =
     Inr \<lparr>authorization = lit ''token ghp_x''\<rparr> \<and>
   querySearch (fixedGithub exampleRepository [myPost2, myPost] []) (remote startWorld)
     (authorization \<lparr>authorization = lit ''token ghp_x''\<rparr>)
     (searchQuery (lit ''user'') (lit ''blog'') (lit ''My Post'')) 5 = Inr [myPost2, myPost] \<and>
   (fst (findDiscussion (fixedGithub exampleRepository [myPost2, myPost] [])
          (lit ''user'') (lit ''blog'') (lit ''My Post'') None startWorld) =
      Inr (Some \<lparr>discussion_id = lit ''D_1'', discussion_url = lit ''https://example.test/d/1''\<rparr>)) =
   (\<exists>i<length [myPost2, myPost]. node_title ([myPost2, myPost] ! i) = lit ''My Post'' \<and>
      \<lparr>discussion_id = lit ''D_1'', discussion_url = lit ''https://example.test/d/1''\<rparr> =
        \<lparr>discussion_id = node_id ([myPost2, myPost] ! i),
           discussion_url = node_url ([myPost2, myPost] ! i)\<rparr> \<and>
      (\<forall>j<i. node_title ([myPost2, myPost] ! j) \<noteq> lit ''My Post'')) \<and>
   fst (findDiscussion (fixedGithub exampleRepository [myPost2, myPost] [])
          (lit ''user'') (lit ''blog'') (lit ''My Post'') None startWorld) =
      Inr (Some \<lparr>discussion_id = lit ''D_1'', discussion_url = lit ''https://example.test/d/1''\<rparr>) \<and>
   fst (findDiscussion (fixedGithub exampleRepository [myPost, myPost2] [])
          (lit ''user'') (lit ''blog'') (lit ''My Post'') None startWorld) =
      Inr (Some \<lparr>discussion_id = lit ''D_1'', discussion_url = lit ''https://example.test/d/1''\<rparr>)"
proof -
  have q: "querySearch (fixedGithub exampleRepository [myPost2, myPost] []) (remote startWorld)
     (authorization \<lparr>authorization = lit ''token ghp_x''\<rparr>)
     (searchQuery (lit ''user'') (lit ''blog'') (lit ''My Post'')) 5 = Inr [myPost2, myPost]"
    by (simp add: search_fixed)
  have v1: "fst (findDiscussion (fixedGithub exampleRepository [myPost2, myPost] [])
          (lit ''user'') (lit ''blog'') (lit ''My Post'') None startWorld) =
      Inr (Some \<lparr>discussion_id = lit ''D_1'', discussion_url = lit ''https://example.test/d/1''\<rparr>)"
    by code_simp
  have v2: "fst (findDiscussion (fixedGithub exampleRepository [myPost, myPost2] [])
          (lit ''user'') (lit ''blog'') (lit ''My Post'') None startWorld) =
      Inr (Some \<lparr>discussion_id = lit ''D_1'', discussion_url = lit ''https://example.test/d/1''\<rparr>)"
    by code_simp
  show ?thesis
    using exact_title_filtering [OF client_startWorld q,
        of "\<lparr>discussion_id = lit ''D_1'', discussion_url = lit ''https://example.test/d/1''\<rparr>"]
      client_startWorld q v1 v2
    by simp
qed

text \<open>
  C8 (the locator never errors on a miss). When the client is built and the search
  answers with a list in which no title equals the candidate, \<open>findDiscussion\<close>
  returns \<open>null\<close> (\<open>Inr None\<close>), not an error.
\<close>

theorem locator_miss_is_null:
  assumes "createClient token (env_GISCUS_BOT_GITHUB_TOKEN w) = Inr client"
    and "querySearch gh (remote w) (authorization client) (searchQuery owner repo title) 5 = Inr nodes"
    and "\<forall>d\<in>set nodes. node_title d \<noteq> title"
  shows "fst (findDiscussion gh owner repo title token w) = Inr None"
proof -
  have "find (\<lambda>d. node_title d = title) nodes = None"
    using assms(3) by (simp add: find_None_iff)
  then show ?thesis
    by (simp add: findDiscussion_answer [OF assms(1,2)])
qed

theorem locator_miss_is_null_witness:
  "createClient None (env_GISCUS_BOT_GITHUB_TOKEN startWorld) =
     Inr \<lparr>authorization = lit ''token ghp_x''\<rparr> \<and>
   querySearch (fixedGithub exampleRepository [myPost2] []) (remote startWorld)
     (authorization \<lparr>authorization = lit ''token ghp_x''\<rparr>)
     (searchQuery (lit ''user'') (lit ''blog'') (lit ''My Post'')) 5 = Inr [myPost2] \<and>
   node_title myPost2 \<noteq> lit ''My Post'' \<and>
   fst (findDiscussion (fixedGithub exampleRepository [myPost2] [])
          (lit ''user'') (lit ''blog'') (lit ''My Post'') None startWorld) = Inr None"
proof -
  have q: "querySearch (fixedGithub exampleRepository [myPost2] []) (remote startWorld)
     (authorization \<lparr>authorization = lit ''token ghp_x''\<rparr>)
     (searchQuery (lit ''user'') (lit ''blog'') (lit ''My Post'')) 5 = Inr [myPost2]"
    by (simp add: search_fixed)
  have n: "node_title myPost2 \<noteq> lit ''My Post''"
    by (simp add: myPost2_def lit_def)
  then have h: "\<forall>d\<in>set [myPost2]. node_title d \<noteq> lit ''My Post''"
    by simp
  show ?thesis
    using locator_miss_is_null [OF client_startWorld q h] client_startWorld q n by simp
qed

text \<open>
  C1 (idempotent discovery). When \<open>findDiscussion\<close> finds a discussion for the title,
  \<open>findOrCreateDiscussion\<close> returns that discussion's id and url, leaves the remote
  state as it was and sends the search request only (no repository query, no
  create-discussion mutation); a second call from the resulting state returns the same
  discussion.
\<close>

theorem idempotent_discovery:
  assumes "fst (findDiscussion gh owner repo title token w) = Inr (Some existing)"
  shows "\<exists>w1. findOrCreateDiscussion toLowerCase gh owner repo categoryName title body token w =
            (Inr existing, w1) \<and>
          remote w1 = remote w \<and>
          requests w1 = requests w @ [SearchRequest (searchQuery owner repo title) 5] \<and>
          fst (findOrCreateDiscussion toLowerCase gh owner repo categoryName title body token w1) =
            Inr existing"
proof -
  obtain w1 where f: "findDiscussion gh owner repo title token w = (Inr (Some existing), w1)"
    using assms by (cases "findDiscussion gh owner repo title token w") simp
  have w1: "w1 = sent (SearchRequest (searchQuery owner repo title) 5) w"
    using f by (rule findDiscussion_world)
  have "fst (findDiscussion gh owner repo title token w1) = Inr (Some existing)"
    using assms findDiscussion_same_remote [of w1 w gh owner repo title token]
    by (simp add: w1 sent_def)
  then obtain w2 where g: "findDiscussion gh owner repo title token w1 = (Inr (Some existing), w2)"
    by (cases "findDiscussion gh owner repo title token w1") simp
  show ?thesis
    using f g by (intro exI [of _ w1]) (simp add: findOrCreateDiscussion_def w1 sent_def)
qed


theorem idempotent_discovery_witness:
  "fst (findDiscussion (fixedGithub exampleRepository [myPost2, myPost] [])
          (lit ''user'') (lit ''blog'') (lit ''My Post'') None startWorld) =
     Inr (Some \<lparr>discussion_id = lit ''D_1'', discussion_url = lit ''https://example.test/d/1''\<rparr>) \<and>
   (\<exists>w1. findOrCreateDiscussion id (fixedGithub exampleRepository [myPost2, myPost] [])
            (lit ''user'') (lit ''blog'') (lit ''General'') (lit ''My Post'') (lit ''link'') None startWorld =
            (Inr \<lparr>discussion_id = lit ''D_1'', discussion_url = lit ''https://example.test/d/1''\<rparr>, w1) \<and>
          remote w1 = remote startWorld \<and>
          requests w1 = requests startWorld @
            [SearchRequest (searchQuery (lit ''user'') (lit ''blog'') (lit ''My Post'')) 5] \<and>
          fst (findOrCreateDiscussion id (fixedGithub exampleRepository [myPost2, myPost] [])
            (lit ''user'') (lit ''blog'') (lit ''General'') (lit ''My Post'') (lit ''link'') None w1) =
            Inr \<lparr>discussion_id = lit ''D_1'', discussion_url = lit ''https://example.test/d/1''\<rparr>)"
proof -
  have v: "fst (findDiscussion (fixedGithub exampleRepository [myPost2, myPost] [])
          (lit ''user'') (lit ''blog'') (lit ''My Post'') None startWorld) =
     Inr (Some \<lparr>discussion_id = lit ''D_1'', discussion_url = lit ''https://example.test/d/1''\<rparr>)"
    by code_simp
  show ?thesis
    using idempotent_discovery [OF v, of id "lit ''General''" "lit ''link''"] v
    by simp
qed
section \<open>The resolver\<close>

lemma getRepoInfo_answer:
  assumes "createClient token (env_GISCUS_BOT_GITHUB_TOKEN w) = Inr client"
    and "queryRepository gh (remote w) (authorization client) owner repo 25 = Inr result"
  shows "fst (getRepoInfo toLowerCase gh owner repo categoryName token w) =
     (case find (\<lambda>c. toLowerCase (category_name c) = toLowerCase categoryName)
             (discussionCategories result) of
        None \<Rightarrow> Inl (Error (categoryNotFound categoryName
                  (join (map category_name (discussionCategories result)) (lit '', ''))))
      | Some category \<Rightarrow> Inr \<lparr>repoId = repository_id result, categoryId = category_id category\<rparr>)"
  using assms by (simp add: getRepoInfo_def Let_def split: option.split)

lemma sublist_prepend: "sublist x ys \<Longrightarrow> sublist x (zs @ ys)"
proof -
  assume "sublist x ys"
  then obtain ps ss where "ys = ps @ x @ ss"
    by (auto simp: sublist_def)
  then have "zs @ ys = (zs @ ps) @ x @ ss"
    by simp
  then show ?thesis
    unfolding sublist_def by blast
qed

lemma sublist_join: "x \<in> set xs \<Longrightarrow> sublist x (join xs sep)"
proof (induction xs sep rule: join.induct)
  case (1 sep)
  then show ?case by simp
next
  case (2 x' sep)
  then show ?case by simp
next
  case (3 x' y ys sep)
  show ?case
  proof (cases "x = x'")
    case True
    then show ?thesis by simp
  next
    case False
    with 3 have "sublist x (join (y # ys) sep)" by simp
    then have "sublist x ((x' @ sep) @ join (y # ys) sep)"
      by (rule sublist_prepend)
    then show ?thesis by simp
  qed
qed

lemma sublist_categoryNotFound:
  "sublist x available \<Longrightarrow> sublist x (categoryNotFound categoryName available)"
proof -
  assume "sublist x available"
  then have "sublist x ((lit ''Discussion category '' @ [0x22] @ categoryName @ [0x22] @
           lit '' not found. Available: '') @ available)"
    by (rule sublist_prepend)
  then show ?thesis
    by (simp add: categoryNotFound_def)
qed

lemma repository_fixed:
  "queryRepository (fixedGithub exampleRepository ranking comments) s auth owner repo 25 =
     Inr exampleRepository"
  by (simp add: fixedGithub_def exampleRepository_def)



text \<open>
  C6 (category miss), as amended. When the client is built, the repository query
  answers and no listed category has the requested name (compared as the code
  compares, after \<open>toLowerCase\<close>), \<open>getRepoInfo\<close> throws a plain \<open>Error\<close> (its name is
  \<open>"Error"\<close>) whose message is
  \<open>Discussion category "<name>" not found. Available: <names joined by ", ">\<close>; every
  listed category name occurs in it as a contiguous substring.
\<close>

theorem category_miss:
  assumes "createClient token (env_GISCUS_BOT_GITHUB_TOKEN w) = Inr client"
    and "queryRepository gh (remote w) (authorization client) owner repo 25 = Inr result"
    and "\<forall>c\<in>set (discussionCategories result).
           toLowerCase (category_name c) \<noteq> toLowerCase categoryName"
  shows "\<exists>msg. fst (getRepoInfo toLowerCase gh owner repo categoryName token w) = Inl (Error msg) \<and>
     errorName (Error msg) = lit ''Error'' \<and>
     msg = lit ''Discussion category '' @ [0x22] @ categoryName @ [0x22] @
           lit '' not found. Available: '' @
           join (map category_name (discussionCategories result)) (lit '', '') \<and>
     (\<forall>c\<in>set (discussionCategories result). sublist (category_name c) msg)"
proof -
  have "find (\<lambda>c. toLowerCase (category_name c) = toLowerCase categoryName)
          (discussionCategories result) = None"
    using assms(3) by (simp add: find_None_iff)
  then have r: "fst (getRepoInfo toLowerCase gh owner repo categoryName token w) =
      Inl (Error (categoryNotFound categoryName
                  (join (map category_name (discussionCategories result)) (lit '', ''))))"
    by (simp add: getRepoInfo_answer [OF assms(1,2)])
  have "sublist (category_name c)
          (categoryNotFound categoryName
             (join (map category_name (discussionCategories result)) (lit '', '')))"
    if "c \<in> set (discussionCategories result)" for c
    using that by (intro sublist_categoryNotFound sublist_join) simp
  then have "\<forall>c\<in>set (discussionCategories result). sublist (category_name c)
          (categoryNotFound categoryName
             (join (map category_name (discussionCategories result)) (lit '', '')))"
    by blast
  moreover have "errorName (Error (categoryNotFound categoryName
      (join (map category_name (discussionCategories result)) (lit '', '')))) = lit ''Error''"
    by simp
  ultimately show ?thesis
    using r unfolding categoryNotFound_def by blast
qed

text \<open>
  The claim as stated names the error a NotFoundError. On the example of the spec,
  "Nonexistent" against the categories "General" and "Blog Comments", the error thrown
  is \<open>new Error(...)\<close>: its name is "Error", not "NotFoundError".
\<close>

theorem category_miss_counterexample:
  "fst (getRepoInfo asciiLowerCase (fixedGithub exampleRepository [] [])
          (lit ''user'') (lit ''blog'') (lit ''Nonexistent'') None startWorld) =
     Inl (Error (lit ''Discussion category '' @ [0x22] @ lit ''Nonexistent'' @ [0x22] @
                 lit '' not found. Available: General, Blog Comments'')) \<and>
   errorName (Error (lit ''Discussion category '' @ [0x22] @ lit ''Nonexistent'' @ [0x22] @
                 lit '' not found. Available: General, Blog Comments'')) = lit ''Error'' \<and>
   errorName (Error (lit ''Discussion category '' @ [0x22] @ lit ''Nonexistent'' @ [0x22] @
                 lit '' not found. Available: General, Blog Comments'')) \<noteq> lit ''NotFoundError''"
  by code_simp

text \<open>
  The same example under the amended claim: the message names both categories.
\<close>

theorem category_miss_witness:
  "createClient None (env_GISCUS_BOT_GITHUB_TOKEN startWorld) =
     Inr \<lparr>authorization = lit ''token ghp_x''\<rparr> \<and>
   queryRepository (fixedGithub exampleRepository [] []) (remote startWorld)
     (authorization \<lparr>authorization = lit ''token ghp_x''\<rparr>) (lit ''user'') (lit ''blog'') 25 =
     Inr exampleRepository \<and>
   map category_name (discussionCategories exampleRepository) = [lit ''General'', lit ''Blog Comments''] \<and>
   asciiLowerCase (lit ''General'') \<noteq> asciiLowerCase (lit ''Nonexistent'') \<and>
   asciiLowerCase (lit ''Blog Comments'') \<noteq> asciiLowerCase (lit ''Nonexistent'') \<and>
   (\<exists>msg. fst (getRepoInfo asciiLowerCase (fixedGithub exampleRepository [] [])
                (lit ''user'') (lit ''blog'') (lit ''Nonexistent'') None startWorld) = Inl (Error msg) \<and>
      errorName (Error msg) = lit ''Error'' \<and>
      msg = lit ''Discussion category '' @ [0x22] @ lit ''Nonexistent'' @ [0x22] @
            lit '' not found. Available: '' @
            join (map category_name (discussionCategories exampleRepository)) (lit '', '') \<and>
      (\<forall>c\<in>set (discussionCategories exampleRepository). sublist (category_name c) msg)) \<and>
   fst (getRepoInfo asciiLowerCase (fixedGithub exampleRepository [] [])
          (lit ''user'') (lit ''blog'') (lit ''Nonexistent'') None startWorld) =
     Inl (Error (lit ''Discussion category '' @ [0x22] @ lit ''Nonexistent'' @ [0x22] @
                 lit '' not found. Available: General, Blog Comments''))"
proof -
  have q: "queryRepository (fixedGithub exampleRepository [] []) (remote startWorld)
     (authorization \<lparr>authorization = lit ''token ghp_x''\<rparr>) (lit ''user'') (lit ''blog'') 25 =
     Inr exampleRepository"
    by (rule repository_fixed)
  have names: "map category_name (discussionCategories exampleRepository) =
      [lit ''General'', lit ''Blog Comments'']"
    by (simp add: exampleRepository_def)
  have n: "asciiLowerCase (lit ''General'') \<noteq> asciiLowerCase (lit ''Nonexistent'')"
      "asciiLowerCase (lit ''Blog Comments'') \<noteq> asciiLowerCase (lit ''Nonexistent'')"
    by (simp_all add: asciiLowerCase_def lit_def)
  then have h: "\<forall>c\<in>set (discussionCategories exampleRepository).
      asciiLowerCase (category_name c) \<noteq> asciiLowerCase (lit ''Nonexistent'')"
    by (simp add: exampleRepository_def)
  have v: "fst (getRepoInfo asciiLowerCase (fixedGithub exampleRepository [] [])
          (lit ''user'') (lit ''blog'') (lit ''Nonexistent'') None startWorld) =
     Inl (Error (lit ''Discussion category '' @ [0x22] @ lit ''Nonexistent'' @ [0x22] @
                 lit '' not found. Available: General, Blog Comments''))"
    by code_simp
  show ?thesis
    by (intro conjI client_startWorld q names n category_miss [OF client_startWorld q h] v)
qed

text \<open>
  C7 (case-insensitive category resolution). When the client is built, the repository
  query answers and some listed category has a name equal to the requested one after
  \<open>toLowerCase\<close>, \<open>getRepoInfo\<close> succeeds with the repository id and the id of the first
  listed category whose lower-cased name equals the lower-cased request; when the
  matching category is the only one, it is that category's id.
\<close>

theorem case_insensitive_resolution:
  assumes "createClient token (env_GISCUS_BOT_GITHUB_TOKEN w) = Inr client"
    and "queryRepository gh (remote w) (authorization client) owner repo 25 = Inr result"
    and "c \<in> set (discussionCategories result)"
    and "toLowerCase (category_name c) = toLowerCase categoryName"
  shows "\<exists>i<length (discussionCategories result).
     toLowerCase (category_name (discussionCategories result ! i)) = toLowerCase categoryName \<and>
     (\<forall>j<i. toLowerCase (category_name (discussionCategories result ! j)) \<noteq> toLowerCase categoryName) \<and>
     fst (getRepoInfo toLowerCase gh owner repo categoryName token w) =
       Inr \<lparr>repoId = repository_id result,
            categoryId = category_id (discussionCategories result ! i)\<rparr> \<and>
     ((\<forall>d\<in>set (discussionCategories result).
          toLowerCase (category_name d) = toLowerCase categoryName \<longrightarrow> d = c) \<longrightarrow>
        discussionCategories result ! i = c)"
proof -
  let ?P = "\<lambda>c. toLowerCase (category_name c) = toLowerCase categoryName"
  have "find ?P (discussionCategories result) \<noteq> None"
    using assms(3,4) by (auto simp: find_None_iff)
  then obtain x where x: "find ?P (discussionCategories result) = Some x"
    by auto
  then obtain i where i: "i < length (discussionCategories result)" "?P (discussionCategories result ! i)"
      "x = discussionCategories result ! i" "\<forall>j<i. \<not> ?P (discussionCategories result ! j)"
    by (auto simp: find_Some_iff)
  have "fst (getRepoInfo toLowerCase gh owner repo categoryName token w) =
       Inr \<lparr>repoId = repository_id result, categoryId = category_id x\<rparr>"
    by (simp add: getRepoInfo_answer [OF assms(1,2)] x)
  moreover have "discussionCategories result ! i = c"
    if "\<forall>d\<in>set (discussionCategories result). ?P d \<longrightarrow> d = c"
    using that i(1,2) nth_mem by blast
  ultimately show ?thesis
    using i by (intro exI [of _ i]) simp
qed


theorem case_insensitive_resolution_witness:
  "createClient None (env_GISCUS_BOT_GITHUB_TOKEN startWorld) =
     Inr \<lparr>authorization = lit ''token ghp_x''\<rparr> \<and>
   queryRepository (fixedGithub exampleRepository [] []) (remote startWorld)
     (authorization \<lparr>authorization = lit ''token ghp_x''\<rparr>) (lit ''user'') (lit ''blog'') 25 =
     Inr exampleRepository \<and>
   \<lparr>category_id = lit ''DIC_2'', category_name = lit ''Blog Comments''\<rparr> \<in>
     set (discussionCategories exampleRepository) \<and>
   asciiLowerCase (lit ''Blog Comments'') = asciiLowerCase (lit ''blog COMMENTS'') \<and>
   (\<exists>i<length (discussionCategories exampleRepository).
     asciiLowerCase (category_name (discussionCategories exampleRepository ! i)) =
       asciiLowerCase (lit ''blog COMMENTS'') \<and>
     (\<forall>j<i. asciiLowerCase (category_name (discussionCategories exampleRepository ! j)) \<noteq>
        asciiLowerCase (lit ''blog COMMENTS'')) \<and>
     fst (getRepoInfo asciiLowerCase (fixedGithub exampleRepository [] [])
            (lit ''user'') (lit ''blog'') (lit ''blog COMMENTS'') None startWorld) =
       Inr \<lparr>repoId = repository_id exampleRepository,
            categoryId = category_id (discussionCategories exampleRepository ! i)\<rparr> \<and>
     ((\<forall>d\<in>set (discussionCategories exampleRepository).
          asciiLowerCase (category_name d) = asciiLowerCase (lit ''blog COMMENTS'') \<longrightarrow>
          d = \<lparr>category_id = lit ''DIC_2'', category_name = lit ''Blog Comments''\<rparr>) \<longrightarrow>
        discussionCategories exampleRepository ! i =
          \<lparr>category_id = lit ''DIC_2'', category_name = lit ''Blog Comments''\<rparr>)) \<and>
   fst (getRepoInfo asciiLowerCase (fixedGithub exampleRepository [] [])
          (lit ''user'') (lit ''blog'') (lit ''blog COMMENTS'') None startWorld) =
     Inr \<lparr>repoId = lit ''R_1'', categoryId = lit ''DIC_2''\<rparr>"
proof -
  have q: "queryRepository (fixedGithub exampleRepository [] []) (remote startWorld)
     (authorization \<lparr>authorization = lit ''token ghp_x''\<rparr>) (lit ''user'') (lit ''blog'') 25 =
     Inr exampleRepository"
    by (rule repository_fixed)
  have m: "\<lparr>category_id = lit ''DIC_2'', category_name = lit ''Blog Comments''\<rparr> \<in>
     set (discussionCategories exampleRepository)"
    by (simp add: exampleRepository_def)
  have l': "asciiLowerCase (lit ''Blog Comments'') = asciiLowerCase (lit ''blog COMMENTS'')"
    by (simp add: asciiLowerCase_def lit_def)
  then have l: "asciiLowerCase (category_name \<lparr>category_id = lit ''DIC_2'', category_name = lit ''Blog Comments''\<rparr>) =
      asciiLowerCase (lit ''blog COMMENTS'')"
    by simp
  have v: "fst (getRepoInfo asciiLowerCase (fixedGithub exampleRepository [] [])
          (lit ''user'') (lit ''blog'') (lit ''blog COMMENTS'') None startWorld) =
     Inr \<lparr>repoId = lit ''R_1'', categoryId = lit ''DIC_2''\<rparr>"
    by code_simp
  show ?thesis
    by (intro conjI client_startWorld q m l' case_insensitive_resolution [OF client_startWorld q m l] v)
qed
section \<open>The search window\<close>

lemma getRepoInfo_found:
  assumes "createClient token (env_GISCUS_BOT_GITHUB_TOKEN w) = Inr client"
    and "queryRepository gh (remote w) (authorization client) owner repo 25 = Inr result"
    and "find (\<lambda>c. toLowerCase (category_name c) = toLowerCase categoryName)
           (discussionCategories result) = Some category"
  shows "getRepoInfo toLowerCase gh owner repo categoryName token w =
     (Inr \<lparr>repoId = repository_id result, categoryId = category_id category\<rparr>,
      sent (RepositoryRequest owner repo 25) w)"
  using assms by (simp add: getRepoInfo_def Let_def)

lemma createDiscussion_answer:
  assumes "createClient token (env_GISCUS_BOT_GITHUB_TOKEN w) = Inr client"
    and "mutateCreateDiscussion gh (remote w) (authorization client) rid cid title body = (r, s')"
  shows "createDiscussion gh rid cid title body token w =
     (r, sent (CreateDiscussionRequest rid cid title body) (w\<lparr>remote := s'\<rparr>))"
  using assms by (simp add: createDiscussion_def)

text \<open>
  C10 (search-window bound). \<open>findDiscussion\<close> sends one search request, with
  \<open>first: 5\<close>. When the remote answers with the first five results of its ranking and
  none of those has the candidate title, \<open>findDiscussion\<close> returns \<open>null\<close>, whatever the
  ranking holds from the sixth place on; \<open>findOrCreateDiscussion\<close> then resolves the
  category and, when that and the mutation succeed, sends the create-discussion
  mutation and returns the new discussion.
\<close>

theorem search_window_bound:
  assumes "createClient token (env_GISCUS_BOT_GITHUB_TOKEN w) = Inr client"
    and "querySearch gh (remote w) (authorization client) (searchQuery owner repo title) 5 =
           Inr (take 5 ranking)"
    and "\<forall>d\<in>set (take 5 ranking). node_title d \<noteq> title"
  shows "findDiscussion gh owner repo title token w =
       (Inr None, w\<lparr>requests := requests w @ [SearchRequest (searchQuery owner repo title) 5]\<rparr>) \<and>
     (queryRepository gh (remote w) (authorization client) owner repo 25 = Inr result \<longrightarrow>
      find (\<lambda>c. toLowerCase (category_name c) = toLowerCase categoryName)
        (discussionCategories result) = Some category \<longrightarrow>
      mutateCreateDiscussion gh (remote w) (authorization client)
        (repository_id result) (category_id category) title body = (Inr created, s') \<longrightarrow>
      findOrCreateDiscussion toLowerCase gh owner repo categoryName title body token w =
        (Inr created,
         w\<lparr>remote := s',
           requests := requests w @
             [SearchRequest (searchQuery owner repo title) 5,
              RepositoryRequest owner repo 25,
              CreateDiscussionRequest (repository_id result) (category_id category) title body]\<rparr>))"
proof (intro conjI impI)
  have "find (\<lambda>d. node_title d = title) (take 5 ranking) = None"
    using assms(3) by (simp add: find_None_iff)
  then show f: "findDiscussion gh owner repo title token w =
       (Inr None, w\<lparr>requests := requests w @ [SearchRequest (searchQuery owner repo title) 5]\<rparr>)"
    by (simp add: findDiscussion_answer [OF assms(1,2)] sent_def)
  let ?w1 = "w\<lparr>requests := requests w @ [SearchRequest (searchQuery owner repo title) 5]\<rparr>"
  assume q: "queryRepository gh (remote w) (authorization client) owner repo 25 = Inr result"
    and c: "find (\<lambda>c. toLowerCase (category_name c) = toLowerCase categoryName)
        (discussionCategories result) = Some category"
    and m: "mutateCreateDiscussion gh (remote w) (authorization client)
        (repository_id result) (category_id category) title body = (Inr created, s')"
  have c1: "createClient token (env_GISCUS_BOT_GITHUB_TOKEN ?w1) = Inr client"
    using assms(1) by simp
  have q1: "queryRepository gh (remote ?w1) (authorization client) owner repo 25 = Inr result"
    using q by simp
  have g: "getRepoInfo toLowerCase gh owner repo categoryName token ?w1 =
     (Inr \<lparr>repoId = repository_id result, categoryId = category_id category\<rparr>,
      sent (RepositoryRequest owner repo 25) ?w1)"
    by (rule getRepoInfo_found [OF c1 q1 c])
  let ?w2 = "sent (RepositoryRequest owner repo 25) ?w1"
  have c2: "createClient token (env_GISCUS_BOT_GITHUB_TOKEN ?w2) = Inr client"
    using assms(1) by (simp add: sent_def)
  have m2: "mutateCreateDiscussion gh (remote ?w2) (authorization client)
        (repository_id result) (category_id category) title body = (Inr created, s')"
    using m by (simp add: sent_def)
  have d: "createDiscussion gh (repository_id result) (category_id category) title body token ?w2 =
     (Inr created,
      sent (CreateDiscussionRequest (repository_id result) (category_id category) title body)
        (?w2\<lparr>remote := s'\<rparr>))"
    by (rule createDiscussion_answer [OF c2 m2])
  show "findOrCreateDiscussion toLowerCase gh owner repo categoryName title body token w =
        (Inr created,
         w\<lparr>remote := s',
           requests := requests w @
             [SearchRequest (searchQuery owner repo title) 5,
              RepositoryRequest owner repo 25,
              CreateDiscussionRequest (repository_id result) (category_id category) title body]\<rparr>)"
    by (simp add: findOrCreateDiscussion_def f g d) (simp add: sent_def)
qed


text \<open>
  A ranking whose sixth result has the exact title: the locator returns \<open>null\<close> and a
  second discussion titled "My Post" is created.
\<close>

theorem search_window_bound_witness:
  "createClient None (env_GISCUS_BOT_GITHUB_TOKEN startWorld) =
     Inr \<lparr>authorization = lit ''token ghp_x''\<rparr> \<and>
   querySearch (fixedGithub exampleRepository sixResults []) (remote startWorld)
     (authorization \<lparr>authorization = lit ''token ghp_x''\<rparr>)
     (searchQuery (lit ''user'') (lit ''blog'') (lit ''My Post'')) 5 = Inr (take 5 sixResults) \<and>
   lit ''My Post'' \<notin> set (map node_title (take 5 sixResults)) \<and>
   node_title (sixResults ! 5) = lit ''My Post'' \<and>
   findDiscussion (fixedGithub exampleRepository sixResults [])
     (lit ''user'') (lit ''blog'') (lit ''My Post'') None startWorld =
     (Inr None,
      startWorld\<lparr>requests := requests startWorld @
        [SearchRequest (searchQuery (lit ''user'') (lit ''blog'') (lit ''My Post'')) 5]\<rparr>) \<and>
   findOrCreateDiscussion asciiLowerCase (fixedGithub exampleRepository sixResults [])
     (lit ''user'') (lit ''blog'') (lit ''general'') (lit ''My Post'') (lit ''link'') None startWorld =
     (Inr \<lparr>discussion_id = lit ''D_new'', discussion_url = lit ''https://example.test/d/new''\<rparr>,
      startWorld\<lparr>remote := Suc 0,
        requests := requests startWorld @
          [SearchRequest (searchQuery (lit ''user'') (lit ''blog'') (lit ''My Post'')) 5,
           RepositoryRequest (lit ''user'') (lit ''blog'') 25,
           CreateDiscussionRequest (repository_id exampleRepository)
             (category_id \<lparr>category_id = lit ''DIC_1'', category_name = lit ''General''\<rparr>)
             (lit ''My Post'') (lit ''link'')]\<rparr>)"
proof -
  let ?gh = "fixedGithub exampleRepository sixResults []"
  let ?client = "\<lparr>authorization = lit ''token ghp_x''\<rparr>"
  have q: "querySearch ?gh (remote startWorld) (authorization ?client)
     (searchQuery (lit ''user'') (lit ''blog'') (lit ''My Post'')) 5 = Inr (take 5 sixResults)"
    by (rule search_fixed)
  have n: "lit ''My Post'' \<notin> set (map node_title (take 5 sixResults))"
    by (simp add: sixResults_def nearMiss_def lit_def)
  have h: "\<forall>d\<in>set (take 5 sixResults). node_title d \<noteq> lit ''My Post''"
    by (simp add: sixResults_def nearMiss_def lit_def)
  have x: "node_title (sixResults ! 5) = lit ''My Post''"
    by (simp add: sixResults_def myPost_def)
  have r: "queryRepository ?gh (remote startWorld) (authorization ?client)
      (lit ''user'') (lit ''blog'') 25 = Inr exampleRepository"
    by (rule repository_fixed)
  have c: "find (\<lambda>c. asciiLowerCase (category_name c) = asciiLowerCase (lit ''general''))
        (discussionCategories exampleRepository) =
      Some \<lparr>category_id = lit ''DIC_1'', category_name = lit ''General''\<rparr>"
    by (simp add: exampleRepository_def asciiLowerCase_def lit_def)
  have m: "mutateCreateDiscussion ?gh (remote startWorld) (authorization ?client)
        (repository_id exampleRepository)
        (category_id \<lparr>category_id = lit ''DIC_1'', category_name = lit ''General''\<rparr>)
        (lit ''My Post'') (lit ''link'') =
      (Inr \<lparr>discussion_id = lit ''D_new'', discussion_url = lit ''https://example.test/d/new''\<rparr>,
       Suc 0)"
    by (simp add: fixedGithub_def startWorld_def)
  note b = search_window_bound [OF client_startWorld q h,
      of exampleRepository asciiLowerCase "lit ''general''"
        "\<lparr>category_id = lit ''DIC_1'', category_name = lit ''General''\<rparr>" "lit ''link''"
        "\<lparr>discussion_id = lit ''D_new'', discussion_url = lit ''https://example.test/d/new''\<rparr>"
        "Suc 0"]
  show ?thesis
    by (intro conjI client_startWorld q n x conjunct1 [OF b]
        conjunct2 [OF b, THEN mp, THEN mp, THEN mp, OF r c m])
qed

section \<open>The credential\<close>

text \<open>
  C9 (a missing credential is fatal at client construction), as amended.
  \<open>createClient\<close> throws when no token is passed and the environment variable is
  unset. It takes the explicit token when one is passed, the environment variable
  otherwise, and succeeds exactly when the value taken is a non-empty string: an
  explicit empty string is not replaced by the environment variable. Whenever
  \<open>createClient\<close> throws, each operation (resolve, locate, create discussion, add
  comment, scan comments, find-or-create) throws the same error and leaves the remote
  state and the trace as they were: no request has been sent.
\<close>

theorem missing_credential_is_fatal:
  "createClient None None = Inl (Error tokenRequired) \<and>
   createClient (Some t) env =
     (if t = [] then Inl (Error tokenRequired) else Inr \<lparr>authorization = lit ''token '' @ t\<rparr>) \<and>
   createClient None (Some v) =
     (if v = [] then Inl (Error tokenRequired) else Inr \<lparr>authorization = lit ''token '' @ v\<rparr>) \<and>
   (createClient token (env_GISCUS_BOT_GITHUB_TOKEN w) = Inl e \<longrightarrow>
      getRepoInfo toLowerCase gh owner repo categoryName token w = (Inl e, w) \<and>
      findDiscussion gh owner repo title token w = (Inl e, w) \<and>
      createDiscussion gh repositoryId categoryId' title body token w = (Inl e, w) \<and>
      addComment gh discussionId commentText token w = (Inl e, w) \<and>
      getDiscussionBotComments gh discussionId labelPrefix token w = (Inl e, w) \<and>
      findOrCreateDiscussion toLowerCase gh owner repo categoryName title body token w = (Inl e, w))"
proof (intro conjI impI)
  show "createClient None None = Inl (Error tokenRequired)"
    by (simp add: createClient_def)
  show "createClient (Some t) env =
     (if t = [] then Inl (Error tokenRequired) else Inr \<lparr>authorization = lit ''token '' @ t\<rparr>)"
    by (simp add: createClient_def)
  show "createClient None (Some v) =
     (if v = [] then Inl (Error tokenRequired) else Inr \<lparr>authorization = lit ''token '' @ v\<rparr>)"
    by (simp add: createClient_def)
next
  assume c: "createClient token (env_GISCUS_BOT_GITHUB_TOKEN w) = Inl e"
  show "getRepoInfo toLowerCase gh owner repo categoryName token w = (Inl e, w)"
    by (simp add: getRepoInfo_def c)
  show f: "findDiscussion gh owner repo title token w = (Inl e, w)"
    by (simp add: findDiscussion_def c)
  show "createDiscussion gh repositoryId categoryId' title body token w = (Inl e, w)"
    by (simp add: createDiscussion_def c)
  show "addComment gh discussionId commentText token w = (Inl e, w)"
    by (simp add: addComment_def c)
  show "getDiscussionBotComments gh discussionId labelPrefix token w = (Inl e, w)"
    by (simp add: getDiscussionBotComments_def c)
  show "findOrCreateDiscussion toLowerCase gh owner repo categoryName title body token w = (Inl e, w)"
    by (simp add: findOrCreateDiscussion_def f)
qed

text \<open>
  The claim as stated lets either source supply the token. With the environment
  variable set to \<open>ghp_x\<close> and the empty string passed explicitly, \<open>token ?? env\<close> is the
  empty string, \<open>createClient\<close> throws and so does the locator.
\<close>

theorem missing_credential_is_fatal_counterexample:
  "env_GISCUS_BOT_GITHUB_TOKEN startWorld = Some (lit ''ghp_x'') \<and>
   createClient (Some []) (env_GISCUS_BOT_GITHUB_TOKEN startWorld) = Inl (Error tokenRequired) \<and>
   findDiscussion (fixedGithub exampleRepository [myPost] []) (lit ''user'') (lit ''blog'')
     (lit ''My Post'') (Some []) startWorld = (Inl (Error tokenRequired), startWorld)"
  by (simp add: startWorld_def createClient_def findDiscussion_def)

theorem missing_credential_is_fatal_witness:
  "createClient None (env_GISCUS_BOT_GITHUB_TOKEN noTokenWorld) = Inl (Error tokenRequired) \<and>
   getRepoInfo asciiLowerCase (fixedGithub exampleRepository [myPost] examplePage)
     (lit ''user'') (lit ''blog'') (lit ''General'') None noTokenWorld =
     (Inl (Error tokenRequired), noTokenWorld) \<and>
   findDiscussion (fixedGithub exampleRepository [myPost] examplePage)
     (lit ''user'') (lit ''blog'') (lit ''My Post'') None noTokenWorld =
     (Inl (Error tokenRequired), noTokenWorld) \<and>
   createDiscussion (fixedGithub exampleRepository [myPost] examplePage)
     (lit ''R_1'') (lit ''DIC_1'') (lit ''My Post'') (lit ''link'') None noTokenWorld =
     (Inl (Error tokenRequired), noTokenWorld) \<and>
   addComment (fixedGithub exampleRepository [myPost] examplePage)
     (lit ''D_1'') (lit ''Hi'') None noTokenWorld =
     (Inl (Error tokenRequired), noTokenWorld) \<and>
   getDiscussionBotComments (fixedGithub exampleRepository [myPost] examplePage)
     (lit ''D_1'') robotLabel None noTokenWorld =
     (Inl (Error tokenRequired), noTokenWorld) \<and>
   findOrCreateDiscussion asciiLowerCase (fixedGithub exampleRepository [myPost] examplePage)
     (lit ''user'') (lit ''blog'') (lit ''General'') (lit ''My Post'') (lit ''link'') None noTokenWorld =
     (Inl (Error tokenRequired), noTokenWorld) \<and>
   createClient (Some (lit ''ghp_y'')) None = Inr \<lparr>authorization = lit ''token ghp_y''\<rparr> \<and>
   createClient None (Some (lit ''ghp_x'')) = Inr \<lparr>authorization = lit ''token ghp_x''\<rparr>"
proof -
  have c: "createClient None (env_GISCUS_BOT_GITHUB_TOKEN noTokenWorld) = Inl (Error tokenRequired)"
    by (simp add: noTokenWorld_def createClient_def)
  have t: "createClient (Some (lit ''ghp_y'')) None = Inr \<lparr>authorization = lit ''token ghp_y''\<rparr>"
    "createClient None (Some (lit ''ghp_x'')) = Inr \<lparr>authorization = lit ''token ghp_x''\<rparr>"
    by (simp_all add: createClient_def lit_def)
  note m = missing_credential_is_fatal [of _ _ _ None noTokenWorld "Error tokenRequired"
      asciiLowerCase "fixedGithub exampleRepository [myPost] examplePage"
      "lit ''user''" "lit ''blog''" "lit ''General''" "lit ''My Post''" "lit ''R_1''" "lit ''DIC_1''"
      "lit ''link''" "lit ''D_1''" "lit ''Hi''" robotLabel]
  have "getRepoInfo asciiLowerCase (fixedGithub exampleRepository [myPost] examplePage)
     (lit ''user'') (lit ''blog'') (lit ''General'') None noTokenWorld =
     (Inl (Error tokenRequired), noTokenWorld) \<and>
   findDiscussion (fixedGithub exampleRepository [myPost] examplePage)
     (lit ''user'') (lit ''blog'') (lit ''My Post'') None noTokenWorld =
     (Inl (Error tokenRequired), noTokenWorld) \<and>
   createDiscussion (fixedGithub exampleRepository [myPost] examplePage)
     (lit ''R_1'') (lit ''DIC_1'') (lit ''My Post'') (lit ''link'') None noTokenWorld =
     (Inl (Error tokenRequired), noTokenWorld) \<and>
   addComment (fixedGithub exampleRepository [myPost] examplePage)
     (lit ''D_1'') (lit ''Hi'') None noTokenWorld =
     (Inl (Error tokenRequired), noTokenWorld) \<and>
   getDiscussionBotComments (fixedGithub exampleRepository [myPost] examplePage)
     (lit ''D_1'') robotLabel None noTokenWorld =
     (Inl (Error tokenRequired), noTokenWorld) \<and>
   findOrCreateDiscussion asciiLowerCase (fixedGithub exampleRepository [myPost] examplePage)
     (lit ''user'') (lit ''blog'') (lit ''General'') (lit ''My Post'') (lit ''link'') None noTokenWorld =
     (Inl (Error tokenRequired), noTokenWorld)"
    using m c by blast
  then show ?thesis
    using c t by blast
qed

section \<open>No duplicate persona comments\<close>

lemma addComment_requests:
  "addComment gh did b token w = (x, w1) \<Longrightarrow>
     requests w1 = requests w \<or> requests w1 = requests w @ [AddDiscussionCommentRequest did b]"
  by (auto simp: addComment_def sent_def split: sum.splits prod.splits)

lemma publishPersonas_trace:
  "publishPersonas gh did labelPrefix scanned ps token pub skip w = (r, w') \<Longrightarrow>
     \<exists>posted. requests w' = requests w @ map (\<lambda>(n, t). AddDiscussionCommentRequest did (commentBody labelPrefix n t)) posted \<and>
       set posted \<subseteq> set ps \<and> (\<forall>p\<in>set posted. fst p \<notin> scanned)"
proof (induction ps arbitrary: pub skip w)
  case Nil
  then show ?case by (intro exI [of _ "[]"]) auto
next
  case (Cons p ps)
  obtain n t where p: "p = (n, t)" by (cases p)
  show ?case
  proof (cases "n \<in> scanned")
    case True
    with Cons.prems p
    have "publishPersonas gh did labelPrefix scanned ps token pub (skip @ [n]) w = (r, w')"
      by simp
    from Cons.IH [OF this] show ?thesis by auto
  next
    case False
    obtain x w1 where a: "addComment gh did (commentBody labelPrefix n t) token w = (x, w1)"
      by (cases "addComment gh did (commentBody labelPrefix n t) token w")
    from addComment_requests [OF a]
    have "\<exists>q. requests w1 = requests w @ map (\<lambda>(n, t). AddDiscussionCommentRequest did (commentBody labelPrefix n t)) q \<and>
             set q \<subseteq> {p}"
    proof
      assume "requests w1 = requests w"
      then show ?thesis by (intro exI [of _ "[]"]) simp
    next
      assume "requests w1 = requests w @ [AddDiscussionCommentRequest did (commentBody labelPrefix n t)]"
      then show ?thesis by (intro exI [of _ "[p]"]) (simp add: p)
    qed
    then obtain q where q: "requests w1 = requests w @ map (\<lambda>(n, t). AddDiscussionCommentRequest did (commentBody labelPrefix n t)) q"
      "set q \<subseteq> {p}" by blast
    show ?thesis
    proof (cases x)
      case (Inl e)
      with Cons.prems p False a have "w' = w1" by simp
      with q False p show ?thesis by (intro exI [of _ q]) auto
    next
      case (Inr cid)
      with Cons.prems p False a
      have "publishPersonas gh did labelPrefix scanned ps token (pub @ [n]) skip w1 = (r, w')"
        by simp
      from Cons.IH [OF this] obtain posted where
        "requests w' = requests w1 @ map (\<lambda>(n, t). AddDiscussionCommentRequest did (commentBody labelPrefix n t)) posted"
        "set posted \<subseteq> set ps" "\<forall>p\<in>set posted. fst p \<notin> scanned"
        by blast
      with q False p show ?thesis by (intro exI [of _ "q @ posted"]) auto
    qed
  qed
qed

lemma publishPersonas_result:
  "publishPersonas gh did labelPrefix scanned ps token pub skip w = (Inr (pub', skip'), w') \<Longrightarrow>
     pub' = pub @ filter (\<lambda>n. n \<notin> scanned) (map fst ps) \<and>
     skip' = skip @ filter (\<lambda>n. n \<in> scanned) (map fst ps)"
proof (induction ps arbitrary: pub skip w)
  case Nil
  then show ?case by simp
next
  case (Cons p ps)
  obtain n t where p: "p = (n, t)" by (cases p)
  show ?case
  proof (cases "n \<in> scanned")
    case True
    with Cons.prems p
    have "publishPersonas gh did labelPrefix scanned ps token pub (skip @ [n]) w = (Inr (pub', skip'), w')"
      by simp
    from Cons.IH [OF this] True p show ?thesis by simp
  next
    case False
    obtain x w1 where a: "addComment gh did (commentBody labelPrefix n t) token w = (x, w1)"
      by (cases "addComment gh did (commentBody labelPrefix n t) token w")
    show ?thesis
    proof (cases x)
      case (Inl e)
      with Cons.prems p False a show ?thesis by simp
    next
      case (Inr cid)
      with Cons.prems p False a
      have "publishPersonas gh did labelPrefix scanned ps token (pub @ [n]) skip w1 = (Inr (pub', skip'), w')"
        by simp
      from Cons.IH [OF this] False p show ?thesis by simp
    qed
  qed
qed


lemma getDiscussionBotComments_answer:
  assumes "createClient token (env_GISCUS_BOT_GITHUB_TOKEN w) = Inr client"
    and "queryComments gh (remote w) (authorization client) discussionId 100 = Inr nodes"
  shows "getDiscussionBotComments gh discussionId labelPrefix token w =
     (Inr (scanComments (personaPrefix labelPrefix) nodes {}),
      sent (CommentsRequest discussionId 100) w)"
  using assms by (simp add: getDiscussionBotComments_def Let_def)

text \<open>
  C5 (no duplicate persona comments), as amended. Let the discussion of the request be
  located or created, and let the fetched page of its comments hold a comment with the
  body \<open>"<labelPrefix> \<cdot> Persona: <personaName>\n\n<text>"\<close>, for a label prefix without
  a line feed and a persona name that is non-empty, without a line feed and without
  white space at either end. Then the scanner's set contains the persona name; the
  requests the publication sends after the scan are add-comment mutations for entries
  of the request, none of them an entry of that persona; and when the publication
  completes, the persona is not in \<open>published\<close> and, if it is in the request, it is in
  \<open>skipped\<close>.
\<close>

theorem no_duplicate_persona_comments:
  assumes d: "findOrCreateDiscussion toLowerCase gh owner repo categoryName title body token w =
               (Inr d, w1)"
    and c: "createClient token (env_GISCUS_BOT_GITHUB_TOKEN w1) = Inr client"
    and q: "queryComments gh (remote w1) (authorization client) (discussion_id d) 100 = Inr nodes"
    and e: "\<lparr>comment_body = commentBody labelPrefix personaName text\<rparr> \<in> set nodes"
    and wf: "LF \<notin> set labelPrefix" "personaName \<noteq> []" "LF \<notin> set personaName"
      "\<not> isWhiteSpace (hd personaName)" "\<not> isWhiteSpace (last personaName)"
    and run: "findOrCreateAndPublish toLowerCase gh owner repo categoryName title body
                labelPrefix personas token w = (r, w')"
  shows "(\<exists>scanned. fst (getDiscussionBotComments gh (discussion_id d) labelPrefix token w1) =
              Inr scanned \<and> personaName \<in> scanned) \<and>
     (\<exists>posted. requests w' = requests w1 @ CommentsRequest (discussion_id d) 100 #
          map (\<lambda>(n, t). AddDiscussionCommentRequest (discussion_id d) (commentBody labelPrefix n t))
            posted \<and>
        set posted \<subseteq> set personas \<and> personaName \<notin> fst ` set posted) \<and>
     (\<forall>res. r = Inr res \<longrightarrow>
        personaName \<notin> set (published res) \<and>
        (personaName \<in> fst ` set personas \<longrightarrow> personaName \<in> set (skipped res)))"
proof -
  let ?scanned = "scanComments (personaPrefix labelPrefix) nodes {}"
  let ?w2 = "sent (CommentsRequest (discussion_id d) 100) w1"
  have g: "getDiscussionBotComments gh (discussion_id d) labelPrefix token w1 = (Inr ?scanned, ?w2)"
    by (rule getDiscussionBotComments_answer [OF c q])
  have m: "personaName \<in> ?scanned"
    by (rule scan_contains [OF e wf])
  obtain x w3 where
    l: "publishPersonas gh (discussion_id d) labelPrefix ?scanned personas token [] [] ?w2 = (x, w3)"
    by (cases "publishPersonas gh (discussion_id d) labelPrefix ?scanned personas token [] [] ?w2")
  have w': "w' = w3"
    using run d g l by (simp add: findOrCreateAndPublish_def split: sum.splits prod.splits)
  from publishPersonas_trace [OF l] obtain posted where
    t: "requests w3 = requests ?w2 @
          map (\<lambda>(n, t). AddDiscussionCommentRequest (discussion_id d) (commentBody labelPrefix n t)) posted"
      "set posted \<subseteq> set personas" "\<forall>p\<in>set posted. fst p \<notin> ?scanned"
    by blast
  have "personaName \<notin> fst ` set posted"
    using t(3) m by auto
  then have second: "\<exists>posted. requests w' = requests w1 @ CommentsRequest (discussion_id d) 100 #
          map (\<lambda>(n, t). AddDiscussionCommentRequest (discussion_id d) (commentBody labelPrefix n t))
            posted \<and>
        set posted \<subseteq> set personas \<and> personaName \<notin> fst ` set posted"
    using t(1,2) w' by (intro exI [of _ posted]) (simp add: sent_def)
  have third: "personaName \<notin> set (published res) \<and>
        (personaName \<in> fst ` set personas \<longrightarrow> personaName \<in> set (skipped res))"
    if res_ok: "r = Inr res" for res
  proof -
    have rx: "r = (case x of Inl e \<Rightarrow> Inl e
                 | Inr ps \<Rightarrow> Inr \<lparr>discussionId' = discussion_id d, discussionUrl' = discussion_url d,
                                   published = fst ps, skipped = snd ps\<rparr>)"
      using run d g l by (simp add: findOrCreateAndPublish_def split: sum.splits prod.splits)
    obtain pub skip where x: "x = Inr (pub, skip)"
      using rx res_ok by (cases x) auto
    have res: "res = \<lparr>discussionId' = discussion_id d, discussionUrl' = discussion_url d,
                   published = pub, skipped = skip\<rparr>"
      using rx res_ok x by simp
    from publishPersonas_result [OF l [unfolded x]]
    have "pub = filter (\<lambda>n. n \<notin> ?scanned) (map fst personas)"
      "skip = filter (\<lambda>n. n \<in> ?scanned) (map fst personas)"
      by simp_all
    with m res show ?thesis by auto
  qed
  show ?thesis
    using g m second third by simp
qed


text \<open>
  The claim as stated ranges over every persona. The persona name "Bob " (with a
  trailing space) already has its labelled comment on the page; the scanner trims the
  name to "Bob", the set does not contain "Bob ", and the persona is published again.
\<close>

theorem no_duplicate_persona_comments_counterexample:
  "\<lparr>comment_body = commentBody robotLabel (lit ''Bob '') (lit ''Hi'')\<rparr> \<in> set trailingSpacePage \<and>
   fst (getDiscussionBotComments (fixedGithub exampleRepository [myPost] trailingSpacePage)
          (lit ''D_1'') robotLabel None startWorld) = Inr {lit ''Bob''} \<and>
   fst (findOrCreateAndPublish asciiLowerCase (fixedGithub exampleRepository [myPost] trailingSpacePage)
          (lit ''user'') (lit ''blog'') (lit ''General'') (lit ''My Post'') (lit ''link'') robotLabel
          [(lit ''Bob '', lit ''Hello again'')] None startWorld) =
     Inr \<lparr>discussionId' = lit ''D_1'', discussionUrl' = lit ''https://example.test/d/1'',
          published = [lit ''Bob ''], skipped = []\<rparr>"
  by code_simp

theorem no_duplicate_persona_comments_witness:
  "findOrCreateDiscussion asciiLowerCase (fixedGithub exampleRepository [myPost2, myPost] examplePage)
     (lit ''user'') (lit ''blog'') (lit ''General'') (lit ''My Post'') (lit ''link'') None startWorld =
     (Inr \<lparr>discussion_id = lit ''D_1'', discussion_url = lit ''https://example.test/d/1''\<rparr>,
      afterLocate) \<and>
   createClient None (env_GISCUS_BOT_GITHUB_TOKEN afterLocate) =
     Inr \<lparr>authorization = lit ''token ghp_x''\<rparr> \<and>
   queryComments (fixedGithub exampleRepository [myPost2, myPost] examplePage) (remote afterLocate)
     (authorization \<lparr>authorization = lit ''token ghp_x''\<rparr>)
     (discussion_id \<lparr>discussion_id = lit ''D_1'', discussion_url = lit ''https://example.test/d/1''\<rparr>)
     100 = Inr examplePage \<and>
   \<lparr>comment_body = commentBody robotLabel (lit ''Curious Reader'') (lit ''Great post!'')\<rparr>
     \<in> set examplePage \<and>
   LF \<notin> set robotLabel \<and> lit ''Curious Reader'' \<noteq> [] \<and> LF \<notin> set (lit ''Curious Reader'') \<and>
   \<not> isWhiteSpace (hd (lit ''Curious Reader'')) \<and> \<not> isWhiteSpace (last (lit ''Curious Reader'')) \<and>
   findOrCreateAndPublish asciiLowerCase (fixedGithub exampleRepository [myPost2, myPost] examplePage)
     (lit ''user'') (lit ''blog'') (lit ''General'') (lit ''My Post'') (lit ''link'') robotLabel
     examplePersonas None startWorld =
     (Inr \<lparr>discussionId' = lit ''D_1'', discussionUrl' = lit ''https://example.test/d/1'',
           published = [lit ''Skeptic''], skipped = [lit ''Curious Reader'']\<rparr>,
      startWorld\<lparr>remote := Suc 0,
        requests :=
          [SearchRequest (searchQuery (lit ''user'') (lit ''blog'') (lit ''My Post'')) 5,
           CommentsRequest (lit ''D_1'') 100,
           AddDiscussionCommentRequest (lit ''D_1'')
             (commentBody robotLabel (lit ''Skeptic'') (lit ''Is that so?''))]\<rparr>) \<and>
   lit ''Curious Reader'' \<notin> set (published
     \<lparr>discussionId' = lit ''D_1'', discussionUrl' = lit ''https://example.test/d/1'',
      published = [lit ''Skeptic''], skipped = [lit ''Curious Reader'']\<rparr>) \<and>
   lit ''Curious Reader'' \<in> set (skipped
     \<lparr>discussionId' = lit ''D_1'', discussionUrl' = lit ''https://example.test/d/1'',
      published = [lit ''Skeptic''], skipped = [lit ''Curious Reader'']\<rparr>)"
proof -
  let ?gh = "fixedGithub exampleRepository [myPost2, myPost] examplePage"
  let ?d = "\<lparr>discussion_id = lit ''D_1'', discussion_url = lit ''https://example.test/d/1''\<rparr>"
  let ?res = "\<lparr>discussionId' = lit ''D_1'', discussionUrl' = lit ''https://example.test/d/1'',
           published = [lit ''Skeptic''], skipped = [lit ''Curious Reader'']\<rparr>"
  have d: "findOrCreateDiscussion asciiLowerCase ?gh
     (lit ''user'') (lit ''blog'') (lit ''General'') (lit ''My Post'') (lit ''link'') None startWorld =
     (Inr ?d, afterLocate)"
    by code_simp
  have c: "createClient None (env_GISCUS_BOT_GITHUB_TOKEN afterLocate) =
     Inr \<lparr>authorization = lit ''token ghp_x''\<rparr>"
    by (simp add: afterLocate_def startWorld_def createClient_def lit_def)
  have q: "queryComments ?gh (remote afterLocate)
     (authorization \<lparr>authorization = lit ''token ghp_x''\<rparr>) (discussion_id ?d) 100 = Inr examplePage"
    by (simp add: fixedGithub_def examplePage_def)
  have e: "\<lparr>comment_body = commentBody robotLabel (lit ''Curious Reader'') (lit ''Great post!'')\<rparr>
     \<in> set examplePage"
    by (simp add: examplePage_def)
  have h: "LF \<notin> set robotLabel" "lit ''Curious Reader'' \<noteq> []" "LF \<notin> set (lit ''Curious Reader'')"
    "\<not> isWhiteSpace (hd (lit ''Curious Reader''))" "\<not> isWhiteSpace (last (lit ''Curious Reader''))"
    by (simp_all add: robotLabel_def lit_def LF_def isWhiteSpace_def)
  have run: "findOrCreateAndPublish asciiLowerCase ?gh
     (lit ''user'') (lit ''blog'') (lit ''General'') (lit ''My Post'') (lit ''link'') robotLabel
     examplePersonas None startWorld =
     (Inr ?res,
      startWorld\<lparr>remote := Suc 0,
        requests :=
          [SearchRequest (searchQuery (lit ''user'') (lit ''blog'') (lit ''My Post'')) 5,
           CommentsRequest (lit ''D_1'') 100,
           AddDiscussionCommentRequest (lit ''D_1'')
             (commentBody robotLabel (lit ''Skeptic'') (lit ''Is that so?''))]\<rparr>)"
    by code_simp
  have m: "lit ''Curious Reader'' \<in> fst ` set examplePersonas"
    by (simp add: examplePersonas_def)
  note t = no_duplicate_persona_comments [OF d c q e h run]
  have "lit ''Curious Reader'' \<notin> set (published ?res) \<and>
        (lit ''Curious Reader'' \<in> fst ` set examplePersonas \<longrightarrow>
           lit ''Curious Reader'' \<in> set (skipped ?res))"
    using t by blast
  then have s: "lit ''Curious Reader'' \<notin> set (published ?res)"
    "lit ''Curious Reader'' \<in> set (skipped ?res)"
    using m by blast+
  show ?thesis
    by (intro conjI d c q e h run s)
qed

end
